theory Spec2Isabelle
  imports Complex_Main
begin

section \<open>Values, errors and responses\<close>

text \<open>
  A decoded response body is a JSON value. Numbers are carried as rationals (the executor
  never computes with them); an object is the list of its own properties, one entry per
  key. The JavaScript value \<open>undefined\<close> is \<open>None\<close> of an option type.
\<close>

datatype json =
    JNull
  | JBool bool
  | JNum rat
  | JStr string
  | JArr "json list"
  | JObj "(string \<times> json) list"

text \<open>An error raised by the host (fetch, the URL parser, an operator): name and message.\<close>

record raw_error =
  err_name :: string
  err_message :: string

text \<open>
  The error taxonomy of \<open>src/errors\<close>: one constructor per class, with the
  constructor arguments the class stores. \<open>code\<close>, \<open>statusCode\<close> and \<open>name\<close>
  are the constants the constructors pass to the base class.
\<close>

datatype xon_error =
    RateLimitError string "rat option"
  | NotFoundError string
  | AuthenticationError string
  | ValidationError string "string option"
  | NetworkError string "raw_error option"
  | TimeoutError string
  | ApiError string nat json

fun message :: "xon_error \<Rightarrow> string" where
  "message (RateLimitError m _) = m"
| "message (NotFoundError m) = m"
| "message (AuthenticationError m) = m"
| "message (ValidationError m _) = m"
| "message (NetworkError m _) = m"
| "message (TimeoutError m) = m"
| "message (ApiError m _ _) = m"

fun code :: "xon_error \<Rightarrow> string" where
  "code (RateLimitError _ _) = ''RATE_LIMIT_EXCEEDED''"
| "code (NotFoundError _) = ''NOT_FOUND''"
| "code (AuthenticationError _) = ''AUTHENTICATION_FAILED''"
| "code (ValidationError _ _) = ''VALIDATION_ERROR''"
| "code (NetworkError _ _) = ''NETWORK_ERROR''"
| "code (TimeoutError _) = ''TIMEOUT''"
| "code (ApiError _ _ _) = ''API_ERROR''"

fun statusCode :: "xon_error \<Rightarrow> nat option" where
  "statusCode (RateLimitError _ _) = Some 429"
| "statusCode (NotFoundError _) = Some 404"
| "statusCode (AuthenticationError _) = Some 401"
| "statusCode (ValidationError _ _) = None"
| "statusCode (NetworkError _ _) = None"
| "statusCode (TimeoutError _) = None"
| "statusCode (ApiError _ s _) = Some s"

fun name :: "xon_error \<Rightarrow> string" where
  "name (RateLimitError _ _) = ''RateLimitError''"
| "name (NotFoundError _) = ''NotFoundError''"
| "name (AuthenticationError _) = ''AuthenticationError''"
| "name (ValidationError _ _) = ''ValidationError''"
| "name (NetworkError _ _) = ''NetworkError''"
| "name (TimeoutError _) = ''TimeoutError''"
| "name (ApiError _ _ _) = ''ApiError''"

fun instanceof_RateLimitError :: "xon_error \<Rightarrow> bool" where
  "instanceof_RateLimitError (RateLimitError _ _) = True"
| "instanceof_RateLimitError _ = False"

fun instanceof_NotFoundError :: "xon_error \<Rightarrow> bool" where
  "instanceof_NotFoundError (NotFoundError _) = True"
| "instanceof_NotFoundError _ = False"

fun retryAfter :: "xon_error \<Rightarrow> rat option" where
  "retryAfter (RateLimitError _ ra) = ra"
| "retryAfter _ = None"

text \<open>What a \<open>catch\<close> clause can receive: a host error or one of the classes above.\<close>

datatype thrown = Raw raw_error | Xon xon_error

fun thrown_name :: "thrown \<Rightarrow> string" where
  "thrown_name (Raw e) = err_name e"
| "thrown_name (Xon x) = name x"

text \<open>
  A response as \<open>handleResponse\<close> reads it: the status, the value of the
  \<open>content-type\<close> header (\<open>None\<close> when \<open>headers.get\<close> returns null), the body
  text that \<open>response.text()\<close> yields, and the value that \<open>response.json()\<close>
  yields (\<open>None\<close> when it throws). The body is taken as received in full.
\<close>

record response =
  status :: nat
  content_type :: "string option"
  body_text :: string
  body_json :: "json option"

definition ok :: "response \<Rightarrow> bool" where
  "ok r = (200 \<le> status r \<and> status r \<le> 299)"

datatype fetch_result = Resolved response | Rejected raw_error

section \<open>The host environment\<close>

text \<open>
  Everything the executor asks of its environment, over a world state \<open>'w\<close> that the
  effects thread through: \<open>fetch\<close> (the awaited outcome of one call, with the
  controller's signal attached), the abort timer (\<open>setTimeout\<close> with the callback
  \<open>controller.abort()\<close>, and \<open>clearTimeout\<close>), the backoff \<open>sleep\<close>, and the pure
  host functions: number formatting in template strings, the URL class,
  \<open>JSON.stringify\<close>, \<open>toLowerCase\<close>, \<open>encodeURIComponent\<close>, the
  \<open>TypeError\<close> an operator (named by the first argument) raises on a value it
  cannot take, and the comparison \<open>v > 0\<close> on a value that is not a number.
\<close>

record url =
  protocol :: string
  location :: string
  searchParams :: "(string \<times> string) list"
  fragment :: string

record fetch_args =
  f_url :: string
  f_method :: string
  f_headers :: "string \<rightharpoonup> string"
  f_body :: "string option"

record 'w host =
  fetch :: "fetch_args \<Rightarrow> 'w \<Rightarrow> fetch_result \<times> 'w"
  setAbortTimer :: "rat \<Rightarrow> 'w \<Rightarrow> 'w"
  clearTimeout :: "'w \<Rightarrow> 'w"
  sleep :: "nat \<Rightarrow> 'w \<Rightarrow> 'w"
  number_string :: "rat \<Rightarrow> string"
  URL_parse :: "string \<Rightarrow> url option"
  URL_resolve :: "string \<Rightarrow> string \<Rightarrow> url"
  URL_toString :: "url \<Rightarrow> string"
  JSON_stringify :: "json \<Rightarrow> string"
  toLowerCase :: "string \<Rightarrow> string"
  encodeURIComponent :: "string \<Rightarrow> string"
  TypeError :: "string \<Rightarrow> json \<Rightarrow> raw_error"
  greater_than_zero :: "json \<Rightarrow> bool"

section \<open>Response handling (\<open>src/utils/http.ts\<close>)\<close>

text \<open>\<open>String.prototype.includes\<close>: the pattern occurs at some position.\<close>

fun str_includes :: "string \<Rightarrow> string \<Rightarrow> bool" where
  "str_includes [] pat = (pat = [])"
| "str_includes (c # cs) pat = (take (length pat) (c # cs) = pat \<or> str_includes cs pat)"

text \<open>Truthiness of a value, as \<open>data && ...\<close> and \<open>body ? ... : ...\<close> test it.\<close>

fun truthy :: "json \<Rightarrow> bool" where
  "truthy JNull = False"
| "truthy (JBool b) = b"
| "truthy (JNum n) = (n \<noteq> 0)"
| "truthy (JStr s) = (s \<noteq> [])"
| "truthy (JArr _) = True"
| "truthy (JObj _) = True"

text \<open>
  \<open>obj.key\<close> for the keys the executor reads (none is an array index or \<open>length\<close>):
  an object's own property, \<open>undefined\<close> on an array.
\<close>

fun property :: "json \<Rightarrow> string \<Rightarrow> json option" where
  "property (JObj kvs) k = map_of kvs k"
| "property _ k = None"

text \<open>\<open>typeof data === 'object'\<close>, which holds of null as well.\<close>

fun typeof_object :: "json \<Rightarrow> bool" where
  "typeof_object (JObj _) = True"
| "typeof_object (JArr _) = True"
| "typeof_object JNull = True"
| "typeof_object _ = False"

definition extractErrorMessage :: "json \<Rightarrow> string" where
  "extractErrorMessage data =
     (case data of
        JStr s \<Rightarrow> s
      | _ \<Rightarrow>
        (if truthy data \<and> typeof_object data then
           (case property data ''Error'' of
              Some (JStr s) \<Rightarrow> s
            | _ \<Rightarrow>
              (case property data ''error'' of
                 Some (JStr s) \<Rightarrow> s
               | _ \<Rightarrow>
                 (case property data ''message'' of
                    Some (JStr s) \<Rightarrow> s
                  | _ \<Rightarrow> ''An unknown error occurred'')))
         else ''An unknown error occurred''))"

definition extractRetryAfter :: "json \<Rightarrow> rat option" where
  "extractRetryAfter data =
     (if truthy data \<and> typeof_object data then
        (case property data ''retry_after'' of
           Some (JNum n) \<Rightarrow> Some n
         | _ \<Rightarrow>
           (case property data ''retryAfter'' of
              Some (JNum n) \<Rightarrow> Some n
            | _ \<Rightarrow> None))
      else None)"

text \<open>\<open>handleErrorResponse\<close> never returns: its value is the error it throws.\<close>

definition handleErrorResponse :: "'w host \<Rightarrow> nat \<Rightarrow> json \<Rightarrow> xon_error" where
  "handleErrorResponse h st data =
     (let msg = extractErrorMessage data in
      if st = 401 then AuthenticationError msg
      else if st = 404 then NotFoundError msg
      else if st = 429 then RateLimitError msg (extractRetryAfter data)
      else ApiError (if msg \<noteq> [] then msg
                     else ''API error: '' @ number_string h (of_nat st)) st data)"

text \<open>The body as \<open>handleResponse\<close> decodes it, by the declared content type.\<close>

definition decode_body :: "response \<Rightarrow> json" where
  "decode_body r =
     (if (case content_type r of None \<Rightarrow> False
          | Some ct \<Rightarrow> str_includes ct ''application/json'')
      then (case body_json r of Some v \<Rightarrow> v | None \<Rightarrow> JNull)
      else JStr (body_text r))"

definition handleResponse :: "'w host \<Rightarrow> response \<Rightarrow> xon_error + json" where
  "handleResponse h r =
     (if status r = 304 then Inr (JObj [])
      else
        let data = decode_body r in
        if ok r then Inr data
        else Inl (handleErrorResponse h (status r) data))"

section \<open>Configuration and request options (\<open>src/types/config.ts\<close>)\<close>

text \<open>
  \<open>ResolvedConfig\<close> as the facade hands it to the executor. Both numbers have passed
  validation: the timeout is a finite number, the retry bound a non-negative integer.
\<close>

record ResolvedConfig =
  baseUrl :: string
  timeout :: rat
  retries :: nat
  headers :: "string \<rightharpoonup> string"

datatype query_value = QStr string | QBool bool

text \<open>
  \<open>RequestOptions\<close>; \<open>params\<close> lists the entries of the record in the order of
  \<open>Object.entries\<close>, an entry with the value \<open>undefined\<close> carrying \<open>None\<close>.
\<close>

record RequestOptions =
  http_method :: "string option"
  opt_headers :: "(string \<rightharpoonup> string) option"
  body :: "json option"
  params :: "(string \<times> query_value option) list option"

section \<open>URL construction\<close>

fun String_of :: "query_value \<Rightarrow> string" where
  "String_of (QStr s) = s"
| "String_of (QBool True) = ''true''"
| "String_of (QBool False) = ''false''"

text \<open>
  \<open>URLSearchParams.set\<close>: the first entry of that name takes the value and the other
  entries of that name are removed; without such an entry the pair is appended.
\<close>

fun searchParams_set :: "(string \<times> string) list \<Rightarrow> string \<Rightarrow> string \<Rightarrow> (string \<times> string) list" where
  "searchParams_set [] k v = [(k, v)]"
| "searchParams_set ((k', v') # rest) k v =
     (if k' = k then (k, v) # filter (\<lambda>p. fst p \<noteq> k) rest
      else (k', v') # searchParams_set rest k v)"

text \<open>The loop over \<open>Object.entries(params)\<close>.\<close>

fun set_entries :: "(string \<times> query_value option) list \<Rightarrow> url \<Rightarrow> url" where
  "set_entries [] u = u"
| "set_entries ((key, val) # rest) u =
     (case val of
        None \<Rightarrow> set_entries rest u
      | Some v \<Rightarrow>
          set_entries rest (u\<lparr>searchParams := searchParams_set (searchParams u) key (String_of v)\<rparr>))"

text \<open>
  \<open>buildUrl\<close> in two steps: the URL object after the loop, and its serialisation.
  Resolving an endpoint path against the validated base is taken to succeed.
\<close>

definition buildUrl_object ::
  "'w host \<Rightarrow> ResolvedConfig \<Rightarrow> string \<Rightarrow> (string \<times> query_value option) list option \<Rightarrow> url" where
  "buildUrl_object h cfg endpoint ps =
     (let u = URL_resolve h endpoint (baseUrl cfg) in
      case ps of None \<Rightarrow> u | Some entries \<Rightarrow> set_entries entries u)"

definition buildUrl ::
  "'w host \<Rightarrow> ResolvedConfig \<Rightarrow> string \<Rightarrow> (string \<times> query_value option) list option \<Rightarrow> string" where
  "buildUrl h cfg endpoint ps = URL_toString h (buildUrl_object h cfg endpoint ps)"

section \<open>The retry loop (\<open>HttpClient.request\<close>)\<close>

text \<open>
  The result of one logical request: what the caller receives (\<open>Inl\<close> the error
  thrown, \<open>Inr\<close> the value returned), what each call of \<open>fetch\<close> yielded, in order,
  the backoff delays slept, in order, and the world afterwards.
\<close>

record 'w run =
  outcome :: "xon_error + json"
  calls :: "fetch_result list"
  delays :: "nat list"
  world :: 'w

definition attempts :: "'w run \<Rightarrow> nat" where
  "attempts r = length (calls r)"

text \<open>\<open>Math.min(1000 * Math.pow(2, attempt - 1), 10000)\<close>, for \<open>attempt\<close> from 1.\<close>

definition backoff_delay :: "nat \<Rightarrow> nat" where
  "backoff_delay attempt = min (1000 * 2 ^ (attempt - 1)) 10000"

text \<open>
  The \<open>try\<close> block for one outcome of \<open>fetch\<close>: a rejection is caught as it is; a
  response clears the timer and goes through \<open>handleResponse\<close>.
\<close>

definition try_block :: "'w host \<Rightarrow> fetch_result \<Rightarrow> 'w \<Rightarrow> (thrown + json) \<times> 'w" where
  "try_block h res w =
     (case res of
        Rejected e \<Rightarrow> (Inl (Raw e), w)
      | Resolved resp \<Rightarrow>
          (case handleResponse h resp of
             Inl x \<Rightarrow> (Inl (Xon x), clearTimeout h w)
           | Inr v \<Rightarrow> (Inr v, clearTimeout h w)))"

text \<open>
  The two \<open>throw\<close> statements of the \<open>catch\<close> block, in the order of the source:
  \<open>Some\<close> the error thrown, \<open>None\<close> when control reaches the backoff.
\<close>

definition catch_throws :: "'w host \<Rightarrow> ResolvedConfig \<Rightarrow> thrown \<Rightarrow> xon_error option" where
  "catch_throws h cfg error =
     (case (case error of
              Xon x \<Rightarrow>
                (case statusCode x of
                   Some sc \<Rightarrow>
                     if sc \<noteq> 0 \<and> 400 \<le> sc \<and> sc < 500
                        \<and> \<not> instanceof_RateLimitError x
                     then Some x else None
                 | None \<Rightarrow> None)
            | Raw e \<Rightarrow> None) of
        Some x \<Rightarrow> Some x
      | None \<Rightarrow>
          if thrown_name error = ''AbortError''
          then Some (TimeoutError (''Request timed out after ''
                       @ number_string h (timeout cfg) @ ''ms''))
          else None)"

text \<open>After the loop: the last error if it is classified, else a \<open>NetworkError\<close> around it.\<close>

definition exhausted :: "'w host \<Rightarrow> ResolvedConfig \<Rightarrow> thrown option \<Rightarrow> xon_error" where
  "exhausted h cfg lastError =
     (case lastError of
        Some (Xon x) \<Rightarrow> x
      | Some (Raw e) \<Rightarrow>
          NetworkError (''Request failed after '' @ number_string h (of_nat (retries cfg))
                          @ '' attempts: '' @ err_message e) (Some e)
      | None \<Rightarrow>
          NetworkError (''Request failed after '' @ number_string h (of_nat (retries cfg))
                          @ '' attempts: undefined'') None)"

function request_loop ::
  "'w host \<Rightarrow> ResolvedConfig \<Rightarrow> fetch_args \<Rightarrow> nat \<Rightarrow> thrown option
     \<Rightarrow> fetch_result list \<Rightarrow> nat list \<Rightarrow> 'w \<Rightarrow> 'w run" where
  "request_loop h cfg args attempt lastError cs ds w =
     (if attempt < retries cfg then
        (case fetch h args w of (res, w1) \<Rightarrow>
           (case try_block h res w1 of
              (Inr v, w2) \<Rightarrow>
                \<lparr>outcome = Inr v, calls = cs @ [res], delays = ds, world = w2\<rparr>
            | (Inl error, w2) \<Rightarrow>
                (case catch_throws h cfg error of
                   Some x \<Rightarrow>
                     \<lparr>outcome = Inl x, calls = cs @ [res], delays = ds, world = w2\<rparr>
                 | None \<Rightarrow>
                     if attempt + 1 < retries cfg then
                       request_loop h cfg args (attempt + 1) (Some error) (cs @ [res])
                         (ds @ [backoff_delay (attempt + 1)])
                         (sleep h (backoff_delay (attempt + 1)) w2)
                     else
                       request_loop h cfg args (attempt + 1) (Some error) (cs @ [res])
                         ds w2)))
      else
        \<lparr>outcome = Inl (exhausted h cfg lastError), calls = cs, delays = ds, world = w\<rparr>)"
  by pat_completeness auto
termination
  by (relation "measure (\<lambda>(h, cfg, args, attempt, rest). retries cfg - attempt)") auto

declare request_loop.simps [simp del]

text \<open>
  \<open>request\<close>: the arguments of every \<open>fetch\<close> of this request (the URL, the
  method, the merged headers, the serialised body), the abort timer, then the loop from
  \<open>attempt = 0\<close> with no error recorded.
\<close>

definition fetch_init :: "'w host \<Rightarrow> ResolvedConfig \<Rightarrow> string \<Rightarrow> RequestOptions \<Rightarrow> fetch_args" where
  "fetch_init h cfg endpoint options =
     \<lparr>f_url = buildUrl h cfg endpoint (params options),
      f_method = (case http_method options of None \<Rightarrow> ''GET'' | Some m \<Rightarrow> m),
      f_headers =
        [''Content-Type'' \<mapsto> ''application/json'', ''Accept'' \<mapsto> ''application/json'']
          ++ headers cfg
          ++ (case opt_headers options of None \<Rightarrow> Map.empty | Some hs \<Rightarrow> hs),
      f_body = (case body options of
                  None \<Rightarrow> None
                | Some b \<Rightarrow> if truthy b then Some (JSON_stringify h b) else None)\<rparr>"

definition request :: "'w host \<Rightarrow> ResolvedConfig \<Rightarrow> string \<Rightarrow> RequestOptions \<Rightarrow> 'w \<Rightarrow> 'w run" where
  "request h cfg endpoint options w =
     request_loop h cfg (fetch_init h cfg endpoint options) 0 None [] []
       (setAbortTimer h (timeout cfg) w)"

section \<open>What the loop does with one outcome of \<open>fetch\<close>\<close>

text \<open>The error the \<open>try\<close> block throws on an outcome, if any.\<close>

definition caught :: "'w host \<Rightarrow> fetch_result \<Rightarrow> thrown option" where
  "caught h res =
     (case res of
        Rejected e \<Rightarrow> Some (Raw e)
      | Resolved r \<Rightarrow> (case handleResponse h r of Inl x \<Rightarrow> Some (Xon x) | Inr v \<Rightarrow> None))"

text \<open>The outcome is caught and the \<open>catch\<close> block throws nothing: the loop goes on.\<close>

definition retried :: "'w host \<Rightarrow> ResolvedConfig \<Rightarrow> fetch_result \<Rightarrow> bool" where
  "retried h cfg res =
     (case caught h res of None \<Rightarrow> False | Some err \<Rightarrow> catch_throws h cfg err = None)"

text \<open>What the caller receives when the outcome is that of the last call.\<close>

definition settle :: "'w host \<Rightarrow> ResolvedConfig \<Rightarrow> fetch_result \<Rightarrow> xon_error + json" where
  "settle h cfg res =
     (case res of
        Rejected e \<Rightarrow>
          Inl (case catch_throws h cfg (Raw e) of
                 Some x \<Rightarrow> x | None \<Rightarrow> exhausted h cfg (Some (Raw e)))
      | Resolved r \<Rightarrow>
          (case handleResponse h r of
             Inr v \<Rightarrow> Inr v
           | Inl x \<Rightarrow>
               Inl (case catch_throws h cfg (Xon x) of
                      Some y \<Rightarrow> y | None \<Rightarrow> exhausted h cfg (Some (Xon x)))))"

text \<open>
  The run of the loop from \<open>attempt = a\<close> with \<open>lastError = le\<close> and delays \<open>ds\<close>,
  in terms of the outcomes \<open>xs\<close> of the calls it makes.
\<close>

definition loop_spec ::
  "'w host \<Rightarrow> ResolvedConfig \<Rightarrow> fetch_args \<Rightarrow> nat \<Rightarrow> thrown option \<Rightarrow> nat list
     \<Rightarrow> fetch_result list \<Rightarrow> 'w run \<Rightarrow> bool" where
  "loop_spec h cfg args a le ds xs R =
     (length xs \<le> retries cfg - a
      \<and> (\<forall>res \<in> set xs. \<exists>w'. fst (fetch h args w') = res)
      \<and> (\<forall>res \<in> set (butlast xs). retried h cfg res)
      \<and> (length xs < retries cfg - a \<longrightarrow> xs \<noteq> [] \<and> \<not> retried h cfg (last xs))
      \<and> outcome R = (if xs = [] then Inl (exhausted h cfg le) else settle h cfg (last xs))
      \<and> delays R = ds @ map backoff_delay [Suc a ..< a + length xs])"

text \<open>
  The failures the specification calls retryable: a transport failure other than the
  abort, a response with status 429, and a response whose status is neither 304, nor 2xx,
  nor 4xx. The client errors are the 4xx statuses other than 429.
\<close>

definition retryable_failure :: "fetch_result \<Rightarrow> bool" where
  "retryable_failure res =
     (case res of
        Rejected e \<Rightarrow> err_name e \<noteq> ''AbortError''
      | Resolved r \<Rightarrow>
          status r = 429
          \<or> (status r \<noteq> 304 \<and> \<not> ok r \<and> \<not> (400 \<le> status r \<and> status r < 500)))"

definition client_error :: "response \<Rightarrow> bool" where
  "client_error r = (400 \<le> status r \<and> status r < 500 \<and> status r \<noteq> 429)"

section \<open>The facade's configuration (\<open>src/client.ts\<close>)\<close>

text \<open>
  A JavaScript number is a finite value or one of the three others. The user's
  configuration has every field optional.
\<close>

datatype jsnum = Num rat | NaN | PosInfinity | NegInfinity

record XposedOrNotConfig =
  user_baseUrl :: "string option"
  user_timeout :: "jsnum option"
  user_retries :: "jsnum option"
  user_headers :: "(string \<rightharpoonup> string) option"

definition DEFAULT_CONFIG :: ResolvedConfig where
  "DEFAULT_CONFIG =
     \<lparr>baseUrl = ''https://api.xposedornot.com'', timeout = 30000, retries = 3,
      headers = Map.empty\<rparr>"

text \<open>The validators return nothing or throw: \<open>Some\<close> is the error thrown.\<close>

definition validateBaseUrl :: "'w host \<Rightarrow> string \<Rightarrow> xon_error option" where
  "validateBaseUrl h b =
     (case URL_parse h b of
        None \<Rightarrow>
          Some (ValidationError (''Invalid baseUrl: '' @ [CHR 0x22] @ b @ [CHR 0x22]
                                   @ '' is not a valid URL'') (Some ''baseUrl''))
      | Some u \<Rightarrow>
          if protocol u \<noteq> ''https:'' then
            Some (ValidationError (''Invalid baseUrl: must use HTTPS protocol (got ''
                                     @ [CHR 0x22] @ protocol u @ [CHR 0x22] @ '')'')
                    (Some ''baseUrl''))
          else None)"

text \<open>
  \<open>Number.isFinite\<close>, \<open>Number.isInteger\<close> (a finite number equal to its floor), and
  the value compared once the check has passed.
\<close>

fun isFinite :: "jsnum \<Rightarrow> bool" where
  "isFinite (Num q) = True"
| "isFinite _ = False"

fun isInteger :: "jsnum \<Rightarrow> bool" where
  "isInteger (Num q) = (of_int \<lfloor>q\<rfloor> = q)"
| "isInteger _ = False"

fun finite_value :: "jsnum \<Rightarrow> rat" where
  "finite_value (Num q) = q"
| "finite_value _ = 0"

definition validateTimeout :: "'w host \<Rightarrow> jsnum \<Rightarrow> xon_error option" where
  "validateTimeout h t =
     (if \<not> isFinite t then
        Some (ValidationError ''Invalid timeout: must be a finite number'' (Some ''timeout''))
      else if finite_value t < 1000 \<or> finite_value t > 300000 then
        Some (ValidationError (''Invalid timeout: must be between '' @ number_string h 1000
                                 @ ''ms and '' @ number_string h 300000 @ ''ms (got ''
                                 @ number_string h (finite_value t) @ ''ms)'')
                (Some ''timeout''))
      else None)"

definition validateRetries :: "'w host \<Rightarrow> jsnum \<Rightarrow> xon_error option" where
  "validateRetries h r =
     (if \<not> isInteger r then
        Some (ValidationError ''Invalid retries: must be an integer'' (Some ''retries''))
      else if finite_value r < 0 \<or> finite_value r > 10 then
        Some (ValidationError (''Invalid retries: must be between '' @ number_string h 0
                                 @ '' and '' @ number_string h 10 @ '' (got ''
                                 @ number_string h (finite_value r) @ '')'')
                (Some ''retries''))
      else None)"

text \<open>
  \<open>resolveConfig\<close>; the record it returns holds the validated numbers, the timeout
  as a finite number and the retry bound as a natural number.
\<close>

definition resolveConfig :: "'w host \<Rightarrow> XposedOrNotConfig \<Rightarrow> xon_error + ResolvedConfig" where
  "resolveConfig h config =
     (let b = (case user_baseUrl config of None \<Rightarrow> baseUrl DEFAULT_CONFIG | Some u \<Rightarrow> u) in
      case validateBaseUrl h b of
        Some e \<Rightarrow> Inl e
      | None \<Rightarrow>
          let t = (case user_timeout config of
                     None \<Rightarrow> Num (timeout DEFAULT_CONFIG) | Some n \<Rightarrow> n) in
          case validateTimeout h t of
            Some e \<Rightarrow> Inl e
          | None \<Rightarrow>
              let r = (case user_retries config of
                         None \<Rightarrow> Num (of_nat (retries DEFAULT_CONFIG)) | Some n \<Rightarrow> n) in
              case validateRetries h r of
                Some e \<Rightarrow> Inl e
              | None \<Rightarrow>
                  Inr \<lparr>baseUrl = b, timeout = finite_value t,
                       retries = nat \<lfloor>finite_value r\<rfloor>,
                       headers = headers DEFAULT_CONFIG
                                   ++ (case user_headers config of
                                         None \<Rightarrow> Map.empty | Some hs \<Rightarrow> hs)\<rparr>)"

text \<open>
  The valid configurations in the words of the specification, with the timeout any
  finite number of the range: the base URL (the default when none is given) parses and
  has the scheme https, the timeout is a number from 1000 to 300000, the retry bound an
  integer from 0 to 10.
\<close>

definition valid_config :: "'w host \<Rightarrow> XposedOrNotConfig \<Rightarrow> bool" where
  "valid_config h config =
     ((case URL_parse h (case user_baseUrl config of
                           None \<Rightarrow> ''https://api.xposedornot.com'' | Some u \<Rightarrow> u) of
         None \<Rightarrow> False
       | Some u \<Rightarrow> protocol u = ''https:'')
      \<and> (case user_timeout config of
            None \<Rightarrow> True
          | Some (Num q) \<Rightarrow> 1000 \<le> q \<and> q \<le> 300000
          | Some _ \<Rightarrow> False)
      \<and> (case user_retries config of
            None \<Rightarrow> True
          | Some (Num q) \<Rightarrow> q \<in> \<int> \<and> 0 \<le> q \<and> q \<le> 10
          | Some _ \<Rightarrow> False))"

section \<open>Input validation (\<open>src/utils/validation.ts\<close>)\<close>

text \<open>
  Strings are sequences of code units below 256. There the white space of \<open>trim\<close> and
  of \<open>\s\<close> is tab, line feed, vertical tab, form feed, carriage return, space and
  no-break space.
\<close>

definition is_space :: "char \<Rightarrow> bool" where
  "is_space c = (of_char c \<in> {9, 10, 11, 12, 13, 32, 160 :: nat})"

definition trim :: "string \<Rightarrow> string" where
  "trim s = rev (dropWhile is_space (rev (dropWhile is_space s)))"

text \<open>
  \<open>EMAIL_REGEX.test\<close> for \<open>/^[^\s@]+@[^\s@]+\.[^\s@]+$/\<close>: a non-empty part of
  characters that are neither white space nor \<open>@\<close>, the first \<open>@\<close>, then such
  characters only, with a dot that is neither the first nor the last of them.
\<close>

definition plain_char :: "char \<Rightarrow> bool" where
  "plain_char c = (\<not> is_space c \<and> c \<noteq> CHR ''@'')"

definition EMAIL_REGEX_test :: "string \<Rightarrow> bool" where
  "EMAIL_REGEX_test s =
     (let l = takeWhile (\<lambda>c. c \<noteq> CHR ''@'') s;
          r = dropWhile (\<lambda>c. c \<noteq> CHR ''@'') s
      in l \<noteq> [] \<and> list_all plain_char l
         \<and> (case r of
               [] \<Rightarrow> False
             | _ # d \<Rightarrow> list_all plain_char d \<and> CHR ''.'' \<in> set (butlast (tl d))))"

definition validateEmail :: "json \<Rightarrow> xon_error option" where
  "validateEmail addr =
     (case addr of
        JStr s \<Rightarrow>
          (let trimmed = trim s in
           if trimmed = [] then Some (ValidationError ''Email is required'' (Some ''email''))
           else if \<not> EMAIL_REGEX_test trimmed then
             Some (ValidationError ''Invalid email format'' (Some ''email''))
           else if length trimmed > 254 then
             Some (ValidationError ''Email is too long (max 254 characters)'' (Some ''email''))
           else None)
      | _ \<Rightarrow> Some (ValidationError ''Email must be a string'' (Some ''email'')))"

definition normalizeEmail :: "'w host \<Rightarrow> string \<Rightarrow> string" where
  "normalizeEmail h addr = toLowerCase h (trim addr)"

definition sanitizeEmailForPath :: "'w host \<Rightarrow> string \<Rightarrow> string" where
  "sanitizeEmailForPath h addr = encodeURIComponent h (normalizeEmail h addr)"

section \<open>The endpoint functions\<close>

subsection \<open>\<open>checkEmail\<close> (\<open>src/endpoints/check-email.ts\<close>)\<close>

text \<open>
  The result's \<open>email\<close> is the caller's string or whatever the response holds under
  that key (\<open>None\<close> for \<open>undefined\<close>); the breaches are the values of the response.
\<close>

record CheckEmailResult =
  email :: "json option"
  found :: bool
  breaches :: "json list"

text \<open>
  \<open>'breaches' in response && Array.isArray(response.breaches)\<close>: the operator
  \<open>in\<close> raises a \<open>TypeError\<close> on a value that is not an object.
\<close>

definition isFoundResponse :: "'w host \<Rightarrow> json \<Rightarrow> raw_error + bool" where
  "isFoundResponse h resp =
     (case resp of
        JObj kvs \<Rightarrow> Inr (case map_of kvs ''breaches'' of Some (JArr _) \<Rightarrow> True | _ \<Rightarrow> False)
      | JArr _ \<Rightarrow> Inr False
      | _ \<Rightarrow> Inl (TypeError h ''in'' resp))"

text \<open>\<open>Array.prototype.flat\<close>, one level deep.\<close>

definition flat :: "json list \<Rightarrow> json list" where
  "flat xs = concat (map (\<lambda>x. case x of JArr ys \<Rightarrow> ys | _ \<Rightarrow> [x]) xs)"

text \<open>The \<open>try\<close> block of \<open>checkEmail\<close> after the request has returned a value.\<close>

definition checkEmail_result :: "'w host \<Rightarrow> json \<Rightarrow> raw_error + CheckEmailResult" where
  "checkEmail_result h resp =
     (case isFoundResponse h resp of
        Inl e \<Rightarrow> Inl e
      | Inr True \<Rightarrow>
          Inr \<lparr>email = property resp ''email'', found = True,
               breaches = (case property resp ''breaches'' of
                             Some (JArr xs) \<Rightarrow> flat xs | _ \<Rightarrow> [])\<rparr>
      | Inr False \<Rightarrow>
          Inr \<lparr>email = property resp ''email'', found = False, breaches = []\<rparr>)"

text \<open>The request \<open>checkEmail\<close> makes once the address has passed validation.\<close>

definition checkEmail_request ::
  "'w host \<Rightarrow> ResolvedConfig \<Rightarrow> string \<Rightarrow> bool option \<Rightarrow> 'w \<Rightarrow> 'w run" where
  "checkEmail_request h cfg addr includeDetails w =
     request h cfg (''/v1/check-email/'' @ sanitizeEmailForPath h addr)
       \<lparr>http_method = None, opt_headers = None, body = None,
        params = Some (if includeDetails = Some True
                       then [(''include_details'', Some (QBool True))] else [])\<rparr> w"

definition checkEmail ::
  "'w host \<Rightarrow> ResolvedConfig \<Rightarrow> string \<Rightarrow> bool option \<Rightarrow> 'w
     \<Rightarrow> (thrown + CheckEmailResult) \<times> 'w" where
  "checkEmail h cfg addr includeDetails w =
     (case validateEmail (JStr addr) of
        Some e \<Rightarrow> (Inl (Xon e), w)
      | None \<Rightarrow>
          (let R = checkEmail_request h cfg addr includeDetails w in
           case outcome R of
             Inr resp \<Rightarrow>
               (case checkEmail_result h resp of
                  Inl e \<Rightarrow> (Inl (Raw e), world R)
                | Inr res \<Rightarrow> (Inr res, world R))
           | Inl error \<Rightarrow>
               if instanceof_NotFoundError error then
                 (Inr \<lparr>email = Some (JStr addr), found = False, breaches = []\<rparr>, world R)
               else (Inl (Xon error), world R)))"

subsection \<open>\<open>getBreachAnalytics\<close> (\<open>src/endpoints/breach-analytics.ts\<close>)\<close>

record BreachAnalyticsResult =
  analytics_email :: string
  analytics_found :: bool
  analytics :: "json option"

text \<open>
  \<open>breachDetails !== undefined && breachDetails.length > 0\<close>: reading \<open>length\<close>
  of null raises; an array and a string have their lengths; a number and a boolean have
  none; an object has the property of that name, if any.
\<close>

definition hasBreaches :: "'w host \<Rightarrow> json option \<Rightarrow> raw_error + bool" where
  "hasBreaches h breachDetails =
     (case breachDetails of
        None \<Rightarrow> Inr False
      | Some JNull \<Rightarrow> Inl (TypeError h ''length'' JNull)
      | Some (JArr xs) \<Rightarrow> Inr (xs \<noteq> [])
      | Some (JStr s) \<Rightarrow> Inr (s \<noteq> [])
      | Some (JObj kvs) \<Rightarrow>
          Inr (case map_of kvs ''length'' of
                 None \<Rightarrow> False
               | Some (JNum n) \<Rightarrow> 0 < n
               | Some v \<Rightarrow> greater_than_zero h v)
      | Some _ \<Rightarrow> Inr False)"

text \<open>The \<open>try\<close> block of \<open>getBreachAnalytics\<close> after the request has returned a value.\<close>

definition getBreachAnalytics_result ::
  "'w host \<Rightarrow> string \<Rightarrow> json \<Rightarrow> raw_error + BreachAnalyticsResult" where
  "getBreachAnalytics_result h addr resp =
     (case resp of
        JNull \<Rightarrow> Inl (TypeError h ''ExposedBreaches'' JNull)
      | _ \<Rightarrow>
          (let breachDetails =
                 (case property resp ''ExposedBreaches'' of
                    None \<Rightarrow> None
                  | Some JNull \<Rightarrow> None
                  | Some eb \<Rightarrow> property eb ''breaches_details'')
           in case hasBreaches h breachDetails of
                Inl e \<Rightarrow> Inl e
              | Inr hb \<Rightarrow>
                  (let hasPastes = (case property resp ''ExposedPastes'' of
                                      Some (JArr ps) \<Rightarrow> ps \<noteq> [] | _ \<Rightarrow> False)
                   in Inr \<lparr>analytics_email = addr, analytics_found = (hb \<or> hasPastes),
                           analytics = Some resp\<rparr>)))"

definition getBreachAnalytics_request ::
  "'w host \<Rightarrow> ResolvedConfig \<Rightarrow> string \<Rightarrow> string option \<Rightarrow> 'w \<Rightarrow> 'w run" where
  "getBreachAnalytics_request h cfg addr token w =
     request h cfg ''/v1/breach-analytics''
       \<lparr>http_method = None, opt_headers = None, body = None,
        params = Some ((''email'', Some (QStr (normalizeEmail h addr)))
                       # (case token of
                            None \<Rightarrow> []
                          | Some t \<Rightarrow> if t \<noteq> [] then [(''token'', Some (QStr t))] else []))\<rparr> w"

definition getBreachAnalytics ::
  "'w host \<Rightarrow> ResolvedConfig \<Rightarrow> string \<Rightarrow> string option \<Rightarrow> 'w
     \<Rightarrow> (thrown + BreachAnalyticsResult) \<times> 'w" where
  "getBreachAnalytics h cfg addr token w =
     (case validateEmail (JStr addr) of
        Some e \<Rightarrow> (Inl (Xon e), w)
      | None \<Rightarrow>
          (let R = getBreachAnalytics_request h cfg addr token w in
           case outcome R of
             Inr resp \<Rightarrow>
               (case getBreachAnalytics_result h addr resp of
                  Inl e \<Rightarrow> (Inl (Raw e), world R)
                | Inr res \<Rightarrow> (Inr res, world R))
           | Inl error \<Rightarrow>
               if instanceof_NotFoundError error then
                 (Inr \<lparr>analytics_email = addr, analytics_found = False, analytics = None\<rparr>,
                  world R)
               else (Inl (Xon error), world R)))"

section \<open>Two hosts to run the executor on\<close>

text \<open>
  The pure host functions of both: integers print in decimal (a fraction as its integer
  part, a point and up to twenty decimals), an absolute URL is a scheme, \<open>://\<close> and a
  non-empty rest, a path resolves by appending it to the base, a URL serialises with its
  query and no escaping. The remaining functions are the simplest of their type.
\<close>

definition digit_char :: "nat \<Rightarrow> char" where
  "digit_char d =
     (if d = 0 then CHR ''0'' else if d = 1 then CHR ''1'' else if d = 2 then CHR ''2''
      else if d = 3 then CHR ''3'' else if d = 4 then CHR ''4'' else if d = 5 then CHR ''5''
      else if d = 6 then CHR ''6'' else if d = 7 then CHR ''7'' else if d = 8 then CHR ''8''
      else CHR ''9'')"

fun digits :: "nat \<Rightarrow> string" where
  "digits n = (if n < 10 then [digit_char n] else digits (n div 10) @ [digit_char (n mod 10)])"

declare digits.simps [simp del]

primrec decimals :: "nat \<Rightarrow> rat \<Rightarrow> string" where
  "decimals 0 q = []"
| "decimals (Suc fuel) q =
     (if q = 0 then []
      else digit_char (nat \<lfloor>q * 10\<rfloor>) # decimals fuel (q * 10 - of_int \<lfloor>q * 10\<rfloor>))"

definition decimal :: "rat \<Rightarrow> string" where
  "decimal q =
     (let m = \<bar>q\<bar>; i = \<lfloor>m\<rfloor>; f = m - of_int i
      in (if q < 0 then ''-'' else []) @ digits (nat i)
         @ (if f = 0 then [] else ''.'' @ decimals 20 f))"

definition parse_absolute :: "string \<Rightarrow> url option" where
  "parse_absolute s =
     (let scheme = takeWhile (\<lambda>c. c \<noteq> CHR '':'') s;
          rest = dropWhile (\<lambda>c. c \<noteq> CHR '':'') s
      in if scheme \<noteq> [] \<and> take 3 rest = ''://'' \<and> 3 < length rest
         then Some \<lparr>protocol = scheme @ '':'', location = drop 1 rest,
                    searchParams = [], fragment = []\<rparr>
         else None)"

definition resolve_path :: "string \<Rightarrow> string \<Rightarrow> url" where
  "resolve_path endpoint b =
     (case parse_absolute b of
        Some u \<Rightarrow> u\<lparr>location := location u @ endpoint\<rparr>
      | None \<Rightarrow> \<lparr>protocol = [], location = endpoint, searchParams = [], fragment = []\<rparr>)"

fun query_string :: "(string \<times> string) list \<Rightarrow> string" where
  "query_string [] = []"
| "query_string [(k, v)] = k @ ''='' @ v"
| "query_string ((k, v) # rest) = k @ ''='' @ v @ ''&'' @ query_string rest"

definition serialise :: "url \<Rightarrow> string" where
  "serialise u =
     protocol u @ location u
       @ (if searchParams u = [] then [] else ''?'' @ query_string (searchParams u))
       @ fragment u"

definition host_of ::
  "(fetch_args \<Rightarrow> 'w \<Rightarrow> fetch_result \<times> 'w) \<Rightarrow> (rat \<Rightarrow> 'w \<Rightarrow> 'w) \<Rightarrow> ('w \<Rightarrow> 'w)
     \<Rightarrow> (nat \<Rightarrow> 'w \<Rightarrow> 'w) \<Rightarrow> 'w host" where
  "host_of f arm clear slp =
     \<lparr>fetch = f, setAbortTimer = arm, clearTimeout = clear, sleep = slp,
      number_string = decimal, URL_parse = parse_absolute, URL_resolve = resolve_path,
      URL_toString = serialise, JSON_stringify = (\<lambda>v. []),
      toLowerCase = (\<lambda>s. s), encodeURIComponent = (\<lambda>s. s),
      TypeError = (\<lambda>opr v. \<lparr>err_name = ''TypeError'', err_message = opr\<rparr>),
      greater_than_zero = (\<lambda>v. False)\<rparr>"

text \<open>
  The scripted host: the world is the list of outcomes still to come, each call of
  \<open>fetch\<close> takes the next one (a connection failure once the script has run out), and
  timers and sleeps do nothing. The abort reaches the executor only as an outcome that the
  script names.
\<close>

definition connection_failure :: raw_error where
  "connection_failure = \<lparr>err_name = ''TypeError'', err_message = ''fetch failed''\<rparr>"

definition scripted_fetch :: "fetch_args \<Rightarrow> fetch_result list \<Rightarrow> fetch_result \<times> fetch_result list" where
  "scripted_fetch args w =
     (case w of [] \<Rightarrow> (Rejected connection_failure, []) | r # rest \<Rightarrow> (r, rest))"

definition scripted_host :: "fetch_result list host" where
  "scripted_host = host_of scripted_fetch (\<lambda>ms w. w) (\<lambda>w. w) (\<lambda>d w. w)"

text \<open>
  The timed host: a clock in milliseconds, the abort timer (\<open>Some\<close> its due time while
  it is armed), the state of the controller's signal, and the transport's script, each
  outcome with the time it takes to arrive. A sleep advances the clock, and the timer
  fires if it falls due by then. A call of \<open>fetch\<close> rejects with \<open>AbortError\<close> at
  once when the signal is already aborted, and at the due time when the timer is armed and
  falls due before the outcome arrives; otherwise it yields the outcome on arrival.
\<close>

record timed_world =
  clock :: rat
  timer :: "rat option"
  aborted :: bool
  transport :: "(nat \<times> fetch_result) list"

definition abort_error :: raw_error where
  "abort_error = \<lparr>err_name = ''AbortError'', err_message = ''This operation was aborted''\<rparr>"

definition timed_fetch :: "fetch_args \<Rightarrow> timed_world \<Rightarrow> fetch_result \<times> timed_world" where
  "timed_fetch args w =
     (let (latency, res) = (case transport w of
                              [] \<Rightarrow> (0, Rejected connection_failure) | p # _ \<Rightarrow> p);
          w1 = w\<lparr>transport := tl (transport w)\<rparr>;
          arrival = clock w + of_nat latency
      in if aborted w then (Rejected abort_error, w1)
         else
           (case timer w of
              None \<Rightarrow> (res, w1\<lparr>clock := arrival\<rparr>)
            | Some due \<Rightarrow>
                if due \<le> clock w \<or> due < arrival
                then (Rejected abort_error,
                      w1\<lparr>clock := max (clock w) due, timer := None, aborted := True\<rparr>)
                else (res, w1\<lparr>clock := arrival\<rparr>)))"

definition timed_sleep :: "nat \<Rightarrow> timed_world \<Rightarrow> timed_world" where
  "timed_sleep d w =
     (let wake = clock w + of_nat d
      in case timer w of
           None \<Rightarrow> w\<lparr>clock := wake\<rparr>
         | Some due \<Rightarrow>
             if due \<le> wake then w\<lparr>clock := wake, timer := None, aborted := True\<rparr>
             else w\<lparr>clock := wake\<rparr>)"

definition timed_host :: "timed_world host" where
  "timed_host =
     host_of timed_fetch (\<lambda>ms w. w\<lparr>timer := Some (clock w + ms)\<rparr>)
       (\<lambda>w. w\<lparr>timer := None\<rparr>) timed_sleep"

definition start :: "(nat \<times> fetch_result) list \<Rightarrow> timed_world" where
  "start script = \<lparr>clock = 0, timer = None, aborted = False, transport = script\<rparr>"

text \<open>
  Times on the timed host, for a transport script whose attempts are numbered from
  \<open>a + 1\<close>. \<open>duration\<close> is the time the attempts take with the backoff after each
  of them but the last. \<open>armed_duration\<close> is the time until the executor clears the
  timer: up to the arrival of the first response, and to the end of the attempts when
  there is none.
\<close>

fun is_response :: "fetch_result \<Rightarrow> bool" where
  "is_response (Resolved r) = True"
| "is_response (Rejected e) = False"

fun duration :: "nat \<Rightarrow> (nat \<times> fetch_result) list \<Rightarrow> nat" where
  "duration a [] = 0"
| "duration a [(l, res)] = l"
| "duration a ((l, res) # p # rest) = l + backoff_delay (Suc a) + duration (Suc a) (p # rest)"

fun armed_duration :: "nat \<Rightarrow> (nat \<times> fetch_result) list \<Rightarrow> nat" where
  "armed_duration a [] = 0"
| "armed_duration a ((l, Resolved r) # rest) = l"
| "armed_duration a [(l, Rejected e)] = l"
| "armed_duration a ((l, Rejected e) # p # rest) =
     l + backoff_delay (Suc a) + armed_duration (Suc a) (p # rest)"

text \<open>The timer, if armed, falls due after the time \<open>t\<close>.\<close>

definition not_due :: "rat option \<Rightarrow> rat \<Rightarrow> bool" where
  "not_due tm t = (case tm of None \<Rightarrow> True | Some due \<Rightarrow> t < due)"

text \<open>Sample inputs: a request without options and four responses.\<close>

definition no_options :: RequestOptions where
  "no_options = \<lparr>http_method = None, opt_headers = None, body = None, params = None\<rparr>"

definition json_response :: "nat \<Rightarrow> json \<Rightarrow> response" where
  "json_response st v =
     \<lparr>status = st, content_type = Some ''application/json; charset=utf-8'',
      body_text = [], body_json = Some v\<rparr>"

definition text_response :: "nat \<Rightarrow> string \<Rightarrow> response" where
  "text_response st t =
     \<lparr>status = st, content_type = Some ''text/plain'', body_text = t, body_json = None\<rparr>"

definition unavailable :: response where
  "unavailable = text_response 503 ''Service Unavailable''"

definition not_found :: response where
  "not_found = json_response 404 (JObj [(''Error'', JStr ''Not found'')])"

definition rate_limited :: response where
  "rate_limited = json_response 429 (JObj [(''retry_after'', JNum 60)])"

definition all_fine :: response where
  "all_fine = json_response 200 (JObj [(''ok'', JBool True)])"

section \<open>Properties of the retry loop\<close>

text \<open>One step of the loop, case by case.\<close>

lemma loop_exhausted:
  "\<not> a < retries cfg \<Longrightarrow>
   request_loop h cfg args a le cs ds w =
     \<lparr>outcome = Inl (exhausted h cfg le), calls = cs, delays = ds, world = w\<rparr>"
  by (subst request_loop.simps) simp

lemma loop_returns:
  "a < retries cfg \<Longrightarrow> fetch h args w = (res, w1) \<Longrightarrow> try_block h res w1 = (Inr v, w2) \<Longrightarrow>
   request_loop h cfg args a le cs ds w =
     \<lparr>outcome = Inr v, calls = cs @ [res], delays = ds, world = w2\<rparr>"
  by (subst request_loop.simps) simp

lemma loop_throws:
  "a < retries cfg \<Longrightarrow> fetch h args w = (res, w1) \<Longrightarrow> try_block h res w1 = (Inl err, w2) \<Longrightarrow>
   catch_throws h cfg err = Some x \<Longrightarrow>
   request_loop h cfg args a le cs ds w =
     \<lparr>outcome = Inl x, calls = cs @ [res], delays = ds, world = w2\<rparr>"
  by (subst request_loop.simps) simp

lemma loop_retries:
  "a < retries cfg \<Longrightarrow> fetch h args w = (res, w1) \<Longrightarrow> try_block h res w1 = (Inl err, w2) \<Longrightarrow>
   catch_throws h cfg err = None \<Longrightarrow>
   request_loop h cfg args a le cs ds w =
     request_loop h cfg args (Suc a) (Some err) (cs @ [res])
       (if Suc a < retries cfg then ds @ [backoff_delay (Suc a)] else ds)
       (if Suc a < retries cfg then sleep h (backoff_delay (Suc a)) w2 else w2)"
  by (subst request_loop.simps) simp

lemma loop_cases [consumes 1, case_names returns throws retries]:
  assumes "a < retries cfg"
  obtains (returns) res w1 v w2 where "fetch h args w = (res, w1)" "try_block h res w1 = (Inr v, w2)"
  | (throws) res w1 err w2 x where "fetch h args w = (res, w1)" "try_block h res w1 = (Inl err, w2)"
       "catch_throws h cfg err = Some x"
  | (retries) res w1 err w2 where "fetch h args w = (res, w1)" "try_block h res w1 = (Inl err, w2)"
       "catch_throws h cfg err = None"
proof -
  obtain res w1 where f: "fetch h args w = (res, w1)" by (cases "fetch h args w")
  obtain t w2 where t: "try_block h res w1 = (t, w2)" by (cases "try_block h res w1")
  show thesis
  proof (cases t)
    case (Inr v) with f t returns show ?thesis by blast
  next
    case (Inl err)
    show ?thesis
    proof (cases "catch_throws h cfg err")
      case None with f t Inl retries show ?thesis by blast
    next
      case (Some x) with f t Inl throws show ?thesis by blast
    qed
  qed
qed

lemma try_block_Inl: "try_block h res w1 = (Inl err, w2) \<Longrightarrow> caught h res = Some err"
  by (auto simp: try_block_def caught_def split: fetch_result.splits sum.splits)

lemma try_block_Inr: "try_block h res w1 = (Inr v, w2) \<Longrightarrow> caught h res = None"
  by (auto simp: try_block_def caught_def split: fetch_result.splits sum.splits)

lemma settle_returns: "try_block h res w1 = (Inr v, w2) \<Longrightarrow> settle h cfg res = Inr v"
  by (auto simp: try_block_def settle_def split: fetch_result.splits sum.splits)

lemma settle_throws:
  "try_block h res w1 = (Inl err, w2) \<Longrightarrow> catch_throws h cfg err = Some x \<Longrightarrow> settle h cfg res = Inl x"
  by (auto simp: try_block_def settle_def split: fetch_result.splits sum.splits)

lemma settle_exhausted:
  "try_block h res w1 = (Inl err, w2) \<Longrightarrow> catch_throws h cfg err = None \<Longrightarrow>
   settle h cfg res = Inl (exhausted h cfg (Some err))"
  by (auto simp: try_block_def settle_def split: fetch_result.splits sum.splits)

text \<open>
  Every run of the loop meets \<open>loop_spec\<close>: by induction on the attempts left.
\<close>

lemma loop_run:
  "\<exists>xs. calls (request_loop h cfg args a le cs ds w) = cs @ xs
        \<and> loop_spec h cfg args a le ds xs (request_loop h cfg args a le cs ds w)"
proof (induction "retries cfg - a" arbitrary: a le cs ds w)
  case 0
  then have "\<not> a < retries cfg" by simp
  then have "request_loop h cfg args a le cs ds w =
     \<lparr>outcome = Inl (exhausted h cfg le), calls = cs, delays = ds, world = w\<rparr>"
    by (rule loop_exhausted)
  then have "calls (request_loop h cfg args a le cs ds w) = cs @ []
     \<and> loop_spec h cfg args a le ds [] (request_loop h cfg args a le cs ds w)"
    using 0 by (simp add: loop_spec_def)
  then show ?case by blast
next
  case (Suc n)
  then have lt: "a < retries cfg" by simp
  from Suc(2) have n: "n = retries cfg - Suc a" by simp
  from lt show ?case
  proof (cases rule: loop_cases [where h = h and args = args and w = w])
    case (returns res w1 v w2)
    have ff: "fst (fetch h args w) = res" using returns by simp
    have nr: "\<not> retried h cfg res"
      using try_block_Inr [OF returns(2)] by (simp add: retried_def)
    have "request_loop h cfg args a le cs ds w =
        \<lparr>outcome = Inr v, calls = cs @ [res], delays = ds, world = w2\<rparr>"
      using lt returns by (rule loop_returns)
    then have "calls (request_loop h cfg args a le cs ds w) = cs @ [res]
       \<and> loop_spec h cfg args a le ds [res] (request_loop h cfg args a le cs ds w)"
      using lt ff nr settle_returns [OF returns(2), of cfg]
      by (auto simp: loop_spec_def)
    then show ?thesis by blast
  next
    case (throws res w1 err w2 x)
    have ff: "fst (fetch h args w) = res" using throws by simp
    have nr: "\<not> retried h cfg res"
      using try_block_Inl [OF throws(2)] throws(3) by (simp add: retried_def)
    have "request_loop h cfg args a le cs ds w =
        \<lparr>outcome = Inl x, calls = cs @ [res], delays = ds, world = w2\<rparr>"
      using lt throws by (rule loop_throws)
    then have "calls (request_loop h cfg args a le cs ds w) = cs @ [res]
       \<and> loop_spec h cfg args a le ds [res] (request_loop h cfg args a le cs ds w)"
      using lt ff nr settle_throws [OF throws(2,3)]
      by (auto simp: loop_spec_def)
    then show ?thesis by blast
  next
    case (retries res w1 err w2)
    define ds' where "ds' = (if Suc a < retries cfg then ds @ [backoff_delay (Suc a)] else ds)"
    define w' where "w' = (if Suc a < retries cfg then sleep h (backoff_delay (Suc a)) w2 else w2)"
    define R where "R = request_loop h cfg args (Suc a) (Some err) (cs @ [res]) ds' w'"
    have eq: "request_loop h cfg args a le cs ds w = R"
      unfolding R_def ds'_def w'_def using lt retries by (rule loop_retries)
    obtain xs where xs: "calls R = (cs @ [res]) @ xs"
      and sp: "loop_spec h cfg args (Suc a) (Some err) ds' xs R"
      using Suc(1) [OF n, of "Some err" "cs @ [res]" ds' w'] unfolding R_def by blast
    have ff: "fst (fetch h args w) = res" using retries by simp
    have rt: "retried h cfg res"
      using try_block_Inl [OF retries(2)] retries(3) by (simp add: retried_def)
    have st: "settle h cfg res = Inl (exhausted h cfg (Some err))"
      using retries(2,3) by (rule settle_exhausted)
    have len: "length xs \<le> retries cfg - Suc a" using sp by (simp add: loop_spec_def)
    have ne: "Suc a < retries cfg \<Longrightarrow> xs \<noteq> []" using sp by (auto simp: loop_spec_def)
    have c1: "length (res # xs) \<le> retries cfg - a" using len lt by simp
    have c2: "\<forall>r \<in> set (res # xs). \<exists>w'. fst (fetch h args w') = r"
      using sp ff by (auto simp: loop_spec_def)
    have c3: "\<forall>r \<in> set (butlast (res # xs)). retried h cfg r"
      using sp rt by (auto simp: loop_spec_def)
    have c4: "length (res # xs) < retries cfg - a \<longrightarrow>
              res # xs \<noteq> [] \<and> \<not> retried h cfg (last (res # xs))"
      using sp by (auto simp: loop_spec_def)
    have c5: "outcome R = (if res # xs = [] then Inl (exhausted h cfg le)
                           else settle h cfg (last (res # xs)))"
      using sp st by (auto simp: loop_spec_def)
    have dl: "delays R = ds' @ map backoff_delay [Suc (Suc a) ..< Suc a + length xs]"
      using sp by (simp add: loop_spec_def)
    have c6: "delays R = ds @ map backoff_delay [Suc a ..< a + length (res # xs)]"
    proof (cases "Suc a < retries cfg")
      case True
      then have "xs \<noteq> []" by (rule ne)
      then have "Suc a < a + length (res # xs)" by (cases xs) simp_all
      then have "[Suc a ..< a + length (res # xs)] = Suc a # [Suc (Suc a) ..< a + length (res # xs)]"
        by (rule upt_conv_Cons)
      then have "[Suc a ..< a + length (res # xs)] = Suc a # [Suc (Suc a) ..< Suc a + length xs]"
        by simp
      then show ?thesis using dl True by (simp add: ds'_def)
    next
      case False
      then have "xs = []" using len by simp
      then show ?thesis using dl False by (simp add: ds'_def)
    qed
    have "calls R = cs @ (res # xs) \<and> loop_spec h cfg args a le ds (res # xs) R"
      using xs c1 c2 c3 c4 c5 c6 unfolding loop_spec_def by simp
    then show ?thesis unfolding eq by blast
  qed
qed

lemma request_run:
  "loop_spec h cfg (fetch_init h cfg e opts) 0 None [] (calls (request h cfg e opts w))
     (request h cfg e opts w)"
  using loop_run [of h cfg "fetch_init h cfg e opts" 0 None "[]" "[]" "setAbortTimer h (timeout cfg) w"]
  by (auto simp: request_def)

text \<open>What follows for a request, one fact at a time.\<close>

lemma attempts_le_retries: "attempts (request h cfg e opts w) \<le> retries cfg"
  using request_run [of h cfg e opts w] by (simp add: loop_spec_def attempts_def)


lemma outcome_of_last:
  "calls (request h cfg e opts w) \<noteq> [] \<Longrightarrow>
   outcome (request h cfg e opts w) = settle h cfg (last (calls (request h cfg e opts w)))"
  using request_run [of h cfg e opts w] by (simp add: loop_spec_def)

lemma outcome_no_calls:
  "calls (request h cfg e opts w) = [] \<Longrightarrow>
   outcome (request h cfg e opts w) = Inl (exhausted h cfg None)"
  using request_run [of h cfg e opts w] by (simp add: loop_spec_def)

text \<open>
  The failures of the specification against the decisions of the \<open>catch\<close> block.
\<close>

lemma handleResponse_failure:
  "status r \<noteq> 304 \<Longrightarrow> \<not> ok r \<Longrightarrow>
   handleResponse h r = Inl (handleErrorResponse h (status r) (decode_body r))"
  by (simp add: handleResponse_def)

lemma name_not_abort: "name x \<noteq> ''AbortError''"
  by (cases x) simp_all

lemma catch_throws_raw:
  "catch_throws h cfg (Raw e) =
     (if err_name e = ''AbortError''
      then Some (TimeoutError (''Request timed out after '' @ number_string h (timeout cfg) @ ''ms''))
      else None)"
  by (simp add: catch_throws_def)

lemma catch_throws_client_error:
  "client_error r \<Longrightarrow>
   catch_throws h cfg (Xon (handleErrorResponse h (status r) d))
     = Some (handleErrorResponse h (status r) d)"
  by (auto simp: catch_throws_def client_error_def handleErrorResponse_def Let_def)

lemma catch_throws_rate_limit:
  "catch_throws h cfg (Xon (handleErrorResponse h 429 d)) = None"
  by (simp add: catch_throws_def handleErrorResponse_def Let_def)

lemma catch_throws_other_status:
  "\<not> (400 \<le> st \<and> st < 500) \<Longrightarrow> catch_throws h cfg (Xon (handleErrorResponse h st d)) = None"
  by (auto simp: catch_throws_def handleErrorResponse_def Let_def)

lemma client_error_handled:
  "client_error r \<Longrightarrow>
   handleResponse h r = Inl (handleErrorResponse h (status r) (decode_body r))"
  by (rule handleResponse_failure) (auto simp: client_error_def ok_def)

lemma client_error_not_retried: "client_error r \<Longrightarrow> \<not> retried h cfg (Resolved r)"
  by (simp add: retried_def caught_def client_error_handled catch_throws_client_error)

lemma client_error_settle:
  "client_error r \<Longrightarrow>
   settle h cfg (Resolved r) = Inl (handleErrorResponse h (status r) (decode_body r))"
  by (simp add: settle_def client_error_handled catch_throws_client_error)

lemma retryable_response_handled:
  "retryable_failure (Resolved r) \<Longrightarrow>
   handleResponse h r = Inl (handleErrorResponse h (status r) (decode_body r))"
  by (rule handleResponse_failure) (auto simp: retryable_failure_def ok_def)

lemma retryable_response_catch:
  "retryable_failure (Resolved r) \<Longrightarrow>
   catch_throws h cfg (Xon (handleErrorResponse h (status r) d)) = None"
  by (auto simp: retryable_failure_def catch_throws_rate_limit catch_throws_other_status)

lemma retryable_retried: "retryable_failure res \<Longrightarrow> retried h cfg res"
proof (cases res)
  case (Resolved r)
  assume "retryable_failure res"
  then show ?thesis
    using Resolved
    by (simp add: retried_def caught_def retryable_response_handled retryable_response_catch)
next
  case (Rejected err)
  assume "retryable_failure res"
  then show ?thesis
    using Rejected by (simp add: retried_def caught_def catch_throws_raw retryable_failure_def)
qed

lemma retryable_settle:
  "retryable_failure res \<Longrightarrow>
   settle h cfg res =
     Inl (case res of
            Rejected err \<Rightarrow>
              NetworkError (''Request failed after '' @ number_string h (of_nat (retries cfg))
                              @ '' attempts: '' @ err_message err) (Some err)
          | Resolved r \<Rightarrow> handleErrorResponse h (status r) (decode_body r))"
proof (cases res)
  case (Resolved r)
  assume "retryable_failure res"
  then show ?thesis
    using Resolved
    by (simp add: settle_def retryable_response_handled retryable_response_catch exhausted_def)
next
  case (Rejected err)
  assume "retryable_failure res"
  then show ?thesis
    using Rejected by (simp add: settle_def catch_throws_raw retryable_failure_def exhausted_def)
qed


text \<open>No request ends in a validation error.\<close>

lemma settle_code: "settle h cfg res = Inl x \<Longrightarrow> code x \<noteq> ''VALIDATION_ERROR''"
  by (auto simp: settle_def catch_throws_def exhausted_def handleResponse_def
        handleErrorResponse_def Let_def
      split: fetch_result.splits sum.splits option.splits if_splits)

lemma request_code:
  "outcome (request h cfg e opts w) = Inl x \<Longrightarrow> code x \<noteq> ''VALIDATION_ERROR''"
proof (cases "calls (request h cfg e opts w) = []")
  case True
  assume "outcome (request h cfg e opts w) = Inl x"
  then show ?thesis using outcome_no_calls [OF True] by (auto simp: exhausted_def)
next
  case False
  assume "outcome (request h cfg e opts w) = Inl x"
  then have "settle h cfg (last (calls (request h cfg e opts w))) = Inl x"
    using outcome_of_last [OF False] by simp
  then show ?thesis by (rule settle_code)
qed

section \<open>Properties of response handling\<close>

text \<open>\<open>str_includes\<close> is the substring test.\<close>

lemma str_includes_iff: "str_includes s p \<longleftrightarrow> (\<exists>a b. s = a @ p @ b)"
proof (induction s)
  case Nil
  then show ?case by auto
next
  case (Cons c cs)
  show ?case
  proof
    assume "str_includes (c # cs) p"
    then consider "take (length p) (c # cs) = p" | "str_includes cs p" by auto
    then show "\<exists>a b. c # cs = a @ p @ b"
    proof cases
      case 1
      then have "c # cs = [] @ p @ drop (length p) (c # cs)"
        by (metis append_Nil append_take_drop_id)
      then show ?thesis by blast
    next
      case 2
      then obtain a b where "cs = a @ p @ b" using Cons.IH by blast
      then have "c # cs = (c # a) @ p @ b" by simp
      then show ?thesis by blast
    qed
  next
    assume "\<exists>a b. c # cs = a @ p @ b"
    then obtain a b where ab: "c # cs = a @ p @ b" by blast
    show "str_includes (c # cs) p"
    proof (cases a)
      case Nil
      then have "take (length p) (c # cs) = p" using ab by simp
      then show ?thesis by simp
    next
      case (Cons x a')
      then have "cs = a' @ p @ b" using ab by simp
      then have "str_includes cs p" using Cons.IH by blast
      then show ?thesis by simp
    qed
  qed
qed

text \<open>Responses with status 429, and the retry-after of a body.\<close>

lemma handleResponse_429:
  "status r = 429 \<Longrightarrow>
   handleResponse h r
     = Inl (RateLimitError (extractErrorMessage (decode_body r)) (extractRetryAfter (decode_body r)))"
  by (simp add: handleResponse_def ok_def handleErrorResponse_def Let_def)

lemma settle_429:
  "status r = 429 \<Longrightarrow>
   settle h cfg (Resolved r)
     = Inl (RateLimitError (extractErrorMessage (decode_body r)) (extractRetryAfter (decode_body r)))"
  by (simp add: settle_def handleResponse_429 catch_throws_def exhausted_def)

lemma retryable_429: "status r = 429 \<Longrightarrow> retryable_failure (Resolved r)"
  by (simp add: retryable_failure_def)

lemma extractRetryAfter_snake:
  "map_of kvs ''retry_after'' = Some (JNum q) \<Longrightarrow> extractRetryAfter (JObj kvs) = Some q"
  by (simp add: extractRetryAfter_def)

lemma extractRetryAfter_camel:
  "\<forall>q. map_of kvs ''retry_after'' \<noteq> Some (JNum q) \<Longrightarrow>
   map_of kvs ''retryAfter'' = Some (JNum q') \<Longrightarrow> extractRetryAfter (JObj kvs) = Some q'"
  by (auto simp: extractRetryAfter_def split: option.splits json.splits)

lemma extractRetryAfter_neither:
  "\<forall>q. map_of kvs ''retry_after'' \<noteq> Some (JNum q) \<Longrightarrow>
   \<forall>q. map_of kvs ''retryAfter'' \<noteq> Some (JNum q) \<Longrightarrow> extractRetryAfter (JObj kvs) = None"
  by (auto simp: extractRetryAfter_def split: option.splits json.splits)

lemma extractRetryAfter_other: "\<forall>kvs. d \<noteq> JObj kvs \<Longrightarrow> extractRetryAfter d = None"
  by (cases d) (simp_all add: extractRetryAfter_def)

section \<open>Properties of the configuration check\<close>

text \<open>When each validator returns, and what it throws.\<close>

lemma isInteger_Ints: "isInteger (Num q) \<longleftrightarrow> q \<in> \<int>"
  by (auto simp: Ints_def)

lemma validateBaseUrl_None:
  "validateBaseUrl h b = None \<longleftrightarrow> (case URL_parse h b of None \<Rightarrow> False | Some u \<Rightarrow> protocol u = ''https:'')"
  by (simp add: validateBaseUrl_def split: option.splits)

lemma validateTimeout_None:
  "validateTimeout h t = None \<longleftrightarrow> (case t of Num q \<Rightarrow> 1000 \<le> q \<and> q \<le> 300000 | _ \<Rightarrow> False)"
  by (cases t) (auto simp: validateTimeout_def)

lemma validateRetries_None:
  "validateRetries h r = None \<longleftrightarrow> (case r of Num q \<Rightarrow> q \<in> \<int> \<and> 0 \<le> q \<and> q \<le> 10 | _ \<Rightarrow> False)"
  by (cases r) (auto simp: validateRetries_def Ints_def)

lemma validateBaseUrl_error:
  "validateBaseUrl h b = Some x \<Longrightarrow> \<exists>m. x = ValidationError m (Some ''baseUrl'')"
  by (auto simp: validateBaseUrl_def split: option.splits if_splits)

lemma validateTimeout_error:
  "validateTimeout h t = Some x \<Longrightarrow> \<exists>m. x = ValidationError m (Some ''timeout'')"
  by (auto simp: validateTimeout_def split: if_splits)

lemma validateRetries_error:
  "validateRetries h r = Some x \<Longrightarrow> \<exists>m. x = ValidationError m (Some ''retries'')"
  by (auto simp: validateRetries_def split: if_splits)

section \<open>Properties of URL construction\<close>





section \<open>Properties of runs on the timed host\<close>

text \<open>The failures the loop retries are the retryable ones, on every host.\<close>

lemma retried_iff: "retried h cfg res \<longleftrightarrow> retryable_failure res"
proof (cases res)
  case (Rejected err)
  then show ?thesis
    by (simp add: retried_def caught_def catch_throws_raw retryable_failure_def)
next
  case (Resolved r)
  show ?thesis
  proof
    assume "retryable_failure res" then show "retried h cfg res" by (rule retryable_retried)
  next
    assume rt: "retried h cfg res"
    show "retryable_failure res"
    proof (rule ccontr)
      assume nr: "\<not> retryable_failure res"
      then have n429: "status r \<noteq> 429"
        and c: "status r = 304 \<or> ok r \<or> (400 \<le> status r \<and> status r < 500)"
        using Resolved by (auto simp: retryable_failure_def)
      show False
      proof (cases "status r = 304 \<or> ok r")
        case True
        then have "\<exists>v. handleResponse h r = Inr v" by (auto simp: handleResponse_def Let_def)
        then show False using rt Resolved by (auto simp: retried_def caught_def)
      next
        case False
        then have "client_error r" using c n429 by (simp add: client_error_def)
        then show False using rt Resolved client_error_not_retried by blast
      qed
    qed
  qed
qed

text \<open>The \<open>try\<close> block clears the timer exactly when \<open>fetch\<close> has resolved.\<close>

lemma try_block_world:
  "snd (try_block h res w) = (if is_response res then clearTimeout h w else w)"
  by (cases res) (auto simp: try_block_def split: sum.splits)

lemma try_block_caught:
  "caught h res = Some err \<Longrightarrow>
   try_block h res w = (Inl err, if is_response res then clearTimeout h w else w)"
  by (cases res) (auto simp: try_block_def caught_def split: sum.splits)

text \<open>
  The time a script takes: \<open>duration\<close> to its end, \<open>armed_duration\<close> to the point where
  the timer is cleared or the script ends.
\<close>

lemma armed_duration_single: "armed_duration a [p] = fst p"
  by (cases p; cases "snd p") auto

lemma duration_single: "duration a [p] = fst p"
  by (cases p) auto

lemma duration_Cons:
  "ys \<noteq> [] \<Longrightarrow> duration a (p # ys) = fst p + backoff_delay (Suc a) + duration (Suc a) ys"
  by (cases p; cases ys) auto

lemma armed_duration_Cons:
  "ys \<noteq> [] \<Longrightarrow>
   armed_duration a (p # ys)
     = (if is_response (snd p) then fst p
        else fst p + backoff_delay (Suc a) + armed_duration (Suc a) ys)"
  by (cases p; cases "snd p"; cases ys) auto

lemma armed_le_duration: "armed_duration a ys \<le> duration a ys"
proof (induction ys arbitrary: a)
  case Nil
  then show ?case by simp
next
  case (Cons p ys)
  show ?case
  proof (cases "ys = []")
    case True
    then show ?thesis by (simp add: armed_duration_single duration_single)
  next
    case False
    then show ?thesis
      using Cons.IH [of "Suc a"] by (simp add: armed_duration_Cons duration_Cons)
  qed
qed


text \<open>The timed host while the timer is not due.\<close>

lemma timed_fetch_in_time:
  "not_due tm (c + of_nat l) \<Longrightarrow>
   fetch timed_host args \<lparr>clock = c, timer = tm, aborted = False, transport = (l, res) # xs\<rparr>
     = (res, \<lparr>clock = c + of_nat l, timer = tm, aborted = False, transport = xs\<rparr>)"
  by (cases tm) (auto simp: timed_host_def host_of_def timed_fetch_def not_due_def Let_def)

lemma timed_sleep_in_time:
  "not_due tm (c + of_nat d) \<Longrightarrow>
   sleep timed_host d \<lparr>clock = c, timer = tm, aborted = False, transport = xs\<rparr>
     = \<lparr>clock = c + of_nat d, timer = tm, aborted = False, transport = xs\<rparr>"
  by (cases tm) (auto simp: timed_host_def host_of_def timed_sleep_def not_due_def Let_def)

lemma timed_clearTimeout:
  "clearTimeout timed_host \<lparr>clock = c, timer = tm, aborted = b, transport = xs\<rparr>
     = \<lparr>clock = c, timer = None, aborted = b, transport = xs\<rparr>"
  by (simp add: timed_host_def host_of_def)

lemma not_due_earlier: "not_due tm t \<Longrightarrow> s \<le> t \<Longrightarrow> not_due tm s"
  by (cases tm) (auto simp: not_due_def)

text \<open>
  The loop on the timed host, from attempt \<open>a\<close> on, when the transport will give the
  outcomes \<open>ys\<close> and then \<open>rest\<close>: all of \<open>ys\<close> but the last are retryable failures, the
  last one ends the loop, and the timer does not fall due while it is armed. The loop
  calls \<open>fetch\<close> once for each element of \<open>ys\<close> and leaves \<open>rest\<close>, sleeps the backoff
  after each attempt but the last, and the clock ends at the sum of the latencies and
  the backoffs.
\<close>

lemma timed_loop:
  assumes "ys \<noteq> []"
    and "a + length ys \<le> retries cfg"
    and "\<forall>p \<in> set (butlast ys). retryable_failure (snd p)"
    and "a + length ys = retries cfg \<or> \<not> retryable_failure (snd (last ys))"
    and "not_due tm (c + of_nat (armed_duration a ys))"
  shows "request_loop timed_host cfg args a le cs ds
           \<lparr>clock = c, timer = tm, aborted = False, transport = ys @ rest\<rparr>
         = \<lparr>outcome = settle timed_host cfg (snd (last ys)),
            calls = cs @ map snd ys,
            delays = ds @ map backoff_delay [Suc a ..< a + length ys],
            world = \<lparr>clock = c + of_nat (duration a ys),
                     timer = (if list_ex is_response (map snd ys) then None else tm),
                     aborted = False, transport = rest\<rparr>\<rparr>"
  using assms
proof (induction ys arbitrary: a le cs ds c tm rule: list_nonempty_induct)
  case (single p)
  obtain l res where p: "p = (l, res)" by (cases p)
  have lt: "a < retries cfg" using single.prems(1) by simp
  have nd: "not_due tm (c + of_nat l)"
    using single.prems(4) p by (simp add: armed_duration_single)
  let ?w1 = "\<lparr>clock = c + of_nat l, timer = tm, aborted = False, transport = rest\<rparr>"
  let ?w2 = "\<lparr>clock = c + of_nat l, timer = (if is_response res then None else tm),
             aborted = False, transport = rest\<rparr>"
  have f: "fetch timed_host args \<lparr>clock = c, timer = tm, aborted = False,
              transport = [p] @ rest\<rparr> = (res, ?w1)"
    using timed_fetch_in_time [OF nd] p by simp
  have w2: "snd (try_block timed_host res ?w1) = ?w2"
    by (simp add: try_block_world timed_clearTimeout)
  obtain t where t: "try_block timed_host res ?w1 = (t, ?w2)"
    using w2 by (cases "try_block timed_host res ?w1") simp
  show ?case
  proof (cases t)
    case (Inr v)
    have "request_loop timed_host cfg args a le cs ds
           \<lparr>clock = c, timer = tm, aborted = False, transport = [p] @ rest\<rparr>
         = \<lparr>outcome = Inr v, calls = cs @ [res], delays = ds, world = ?w2\<rparr>"
      using lt f t Inr by (intro loop_returns) simp_all
    moreover have "try_block timed_host res ?w1 = (Inr v, ?w2)" using t Inr by simp
    then have "settle timed_host cfg res = Inr v" by (rule settle_returns)
    ultimately show ?thesis using p by (simp add: duration_single)
  next
    case (Inl err)
    show ?thesis
    proof (cases "catch_throws timed_host cfg err")
      case (Some x)
      have "request_loop timed_host cfg args a le cs ds
             \<lparr>clock = c, timer = tm, aborted = False, transport = [p] @ rest\<rparr>
           = \<lparr>outcome = Inl x, calls = cs @ [res], delays = ds, world = ?w2\<rparr>"
        using lt f t Inl Some by (intro loop_throws) simp_all
      moreover have "try_block timed_host res ?w1 = (Inl err, ?w2)" using t Inl by simp
      then have "settle timed_host cfg res = Inl x" using Some by (rule settle_throws)
      ultimately show ?thesis using p by (simp add: duration_single)
    next
      case None
      have tb: "try_block timed_host res ?w1 = (Inl err, ?w2)" using t Inl by simp
      have "retried timed_host cfg res"
        using try_block_Inl [OF tb] None by (simp add: retried_def)
      then have "retryable_failure res" by (simp add: retried_iff)
      then have last: "\<not> Suc a < retries cfg" using single.prems(3) p by auto
      have "request_loop timed_host cfg args a le cs ds
             \<lparr>clock = c, timer = tm, aborted = False, transport = [p] @ rest\<rparr>
           = request_loop timed_host cfg args (Suc a) (Some err) (cs @ [res]) ds ?w2"
        using loop_retries [OF lt f tb None, of le cs ds] last by simp
      also have "\<dots> = \<lparr>outcome = Inl (exhausted timed_host cfg (Some err)),
                       calls = cs @ [res], delays = ds, world = ?w2\<rparr>"
        using last by (rule loop_exhausted)
      finally have run: "request_loop timed_host cfg args a le cs ds
             \<lparr>clock = c, timer = tm, aborted = False, transport = [p] @ rest\<rparr>
           = \<lparr>outcome = Inl (exhausted timed_host cfg (Some err)),
              calls = cs @ [res], delays = ds, world = ?w2\<rparr>" .
      have "settle timed_host cfg res = Inl (exhausted timed_host cfg (Some err))"
        using tb None by (rule settle_exhausted)
      then show ?thesis using run p by (simp add: duration_single)
    qed
  qed
next
  case (cons p ys)
  obtain l res where p: "p = (l, res)" by (cases p)
  have lt: "a < retries cfg" and more: "Suc a < retries cfg"
    using cons.prems(1) cons.hyps by (cases ys; simp)+
  have rf: "retryable_failure res" using cons.prems(2) cons.hyps p by simp
  have ad: "armed_duration a (p # ys)
      = (if is_response res then l
         else l + backoff_delay (Suc a) + armed_duration (Suc a) ys)"
    using cons.hyps p by (simp add: armed_duration_Cons)
  have nd: "not_due tm (c + of_nat l)"
    using cons.prems(4) ad by (auto elim: not_due_earlier)
  let ?tm' = "if is_response res then None else tm"
  let ?b = "backoff_delay (Suc a)"
  let ?w1 = "\<lparr>clock = c + of_nat l, timer = tm, aborted = False, transport = ys @ rest\<rparr>"
  let ?w2 = "\<lparr>clock = c + of_nat l, timer = ?tm', aborted = False, transport = ys @ rest\<rparr>"
  let ?w3 = "\<lparr>clock = c + of_nat l + of_nat ?b, timer = ?tm', aborted = False,
             transport = ys @ rest\<rparr>"
  have f: "fetch timed_host args \<lparr>clock = c, timer = tm, aborted = False,
              transport = (p # ys) @ rest\<rparr> = (res, ?w1)"
    using timed_fetch_in_time [OF nd] p by simp
  obtain err where err: "caught timed_host res = Some err"
    and ct: "catch_throws timed_host cfg err = None"
    using retryable_retried [OF rf, of timed_host cfg]
    by (auto simp: retried_def split: option.splits)
  have tb: "try_block timed_host res ?w1 = (Inl err, ?w2)"
    using try_block_caught [OF err, of ?w1] by (simp add: timed_clearTimeout)
  have nd2: "not_due ?tm' (c + of_nat l + of_nat ?b)"
  proof (cases "is_response res")
    case True
    then show ?thesis by (simp add: not_due_def)
  next
    case False
    then have "not_due tm (c + of_nat (l + ?b + armed_duration (Suc a) ys))"
      using cons.prems(4) ad by simp
    then have "not_due tm (c + of_nat l + of_nat ?b)"
      by (rule not_due_earlier) simp
    then show ?thesis using False by simp
  qed
  have sl: "sleep timed_host ?b ?w2 = ?w3"
    using timed_sleep_in_time [OF nd2] by simp
  have step: "request_loop timed_host cfg args a le cs ds
             \<lparr>clock = c, timer = tm, aborted = False, transport = (p # ys) @ rest\<rparr>
           = request_loop timed_host cfg args (Suc a) (Some err) (cs @ [res]) (ds @ [?b]) ?w3"
    using loop_retries [OF lt f tb ct, of le cs ds] more sl by simp
  have i1: "Suc a + length ys \<le> retries cfg" using cons.prems(1) by simp
  have i2: "\<forall>q \<in> set (butlast ys). retryable_failure (snd q)"
    using cons.prems(2) cons.hyps by simp
  have i3: "Suc a + length ys = retries cfg \<or> \<not> retryable_failure (snd (last ys))"
    using cons.prems(3) cons.hyps by simp
  have i4: "not_due ?tm' (c + of_nat l + of_nat ?b + of_nat (armed_duration (Suc a) ys))"
  proof (cases "is_response res")
    case True
    then show ?thesis by (simp add: not_due_def)
  next
    case False
    then show ?thesis using cons.prems(4) ad by (simp add: add.assoc)
  qed
  have up: "[Suc a ..< a + length (p # ys)] = Suc a # [Suc (Suc a) ..< Suc a + length ys]"
  proof -
    have "Suc a < a + length (p # ys)" using cons.hyps by (cases ys) simp_all
    then have "[Suc a ..< a + length (p # ys)] = Suc a # [Suc (Suc a) ..< a + length (p # ys)]"
      by (rule upt_conv_Cons)
    then show ?thesis by simp
  qed
  have du: "duration a (p # ys) = l + ?b + duration (Suc a) ys"
    using cons.hyps p by (simp add: duration_Cons)
  show ?case
    unfolding step
    using cons.IH [OF i1 i2 i3 i4, of "Some err" "cs @ [res]" "ds @ [?b]"] cons.hyps p up du
    by (simp add: add.assoc)
qed

lemma timed_request:
  assumes "ys \<noteq> []"
    and "length ys \<le> retries cfg"
    and "\<forall>p \<in> set (butlast ys). retryable_failure (snd p)"
    and "length ys = retries cfg \<or> \<not> retryable_failure (snd (last ys))"
    and "of_nat (armed_duration 0 ys) < timeout cfg"
  shows "request timed_host cfg e opts (start (ys @ rest))
         = \<lparr>outcome = settle timed_host cfg (snd (last ys)),
            calls = map snd ys,
            delays = map backoff_delay [1 ..< length ys],
            world = \<lparr>clock = of_nat (duration 0 ys),
                     timer = (if list_ex is_response (map snd ys) then None
                              else Some (timeout cfg)),
                     aborted = False, transport = rest\<rparr>\<rparr>"
proof -
  have arm: "setAbortTimer timed_host (timeout cfg) (start (ys @ rest))
      = \<lparr>clock = 0, timer = Some (timeout cfg), aborted = False, transport = ys @ rest\<rparr>"
    by (simp add: timed_host_def host_of_def start_def)
  have nd: "not_due (Some (timeout cfg)) (0 + of_nat (armed_duration 0 ys))"
    using assms(5) by (simp add: not_due_def)
  show ?thesis
    unfolding request_def arm
    using timed_loop [OF assms(1) _ _ _ nd, of cfg "fetch_init timed_host cfg e opts" None "[]" "[]" rest]
      assms(2,3,4)
    by simp
qed

section \<open>Concrete runs\<close>

text \<open>The definitions a concrete run on the scripted host unfolds.\<close>

lemmas run_simps =
  request_def request_loop.simps try_block_def catch_throws_def exhausted_def
  handleResponse_def handleErrorResponse_def decode_body_def ok_def
  extractErrorMessage_def extractRetryAfter_def backoff_delay_def
  scripted_host_def host_of_def scripted_fetch_def connection_failure_def
  DEFAULT_CONFIG_def Let_def decimal_def digits.simps digit_char_def

text \<open>The definitions a concrete run on the timed host unfolds.\<close>

lemmas timed_simps =
  request_def request_loop.simps try_block_def catch_throws_def exhausted_def
  handleResponse_def handleErrorResponse_def decode_body_def ok_def
  extractErrorMessage_def extractRetryAfter_def backoff_delay_def
  timed_host_def host_of_def timed_fetch_def timed_sleep_def start_def
  connection_failure_def abort_error_def
  DEFAULT_CONFIG_def Let_def decimal_def digits.simps digit_char_def

text \<open>The sample address passes \<open>validateEmail\<close>.\<close>

lemma sample_address: "validateEmail (JStr ''test@example.com'') = None"
  by (simp add: validateEmail_def trim_def is_space_def EMAIL_REGEX_test_def plain_char_def
        Let_def)

section \<open>The claims\<close>

text \<open>
  C1. The claim: at most \<open>retries\<close> attempts per request (this half is
  \<open>attempts_le_retries\<close>), and exactly one attempt when \<open>retries = 0\<close>. The code
  at \<open>retries = 0\<close>: the loop body never runs, so no attempt is made, whatever the host,
  and the caller receives a \<open>NetworkError\<close> built from the undefined last error; on
  the scripted host a server ready to answer 200 is never asked.
\<close>

theorem zero_retries_no_attempt:
  "attempts (request h (cfg\<lparr>retries := 0\<rparr>) e opts w) = 0
   \<and> outcome (request h (cfg\<lparr>retries := 0\<rparr>) e opts w)
       = Inl (NetworkError (''Request failed after '' @ number_string h 0
                              @ '' attempts: undefined'') None)
   \<and> request scripted_host (DEFAULT_CONFIG\<lparr>retries := 0\<rparr>) ''/v1/breaches'' no_options
         [Resolved all_fine]
       = \<lparr>outcome = Inl (NetworkError ''Request failed after 0 attempts: undefined'' None),
          calls = [], delays = [], world = [Resolved all_fine]\<rparr>"
proof -
  have "request h (cfg\<lparr>retries := 0\<rparr>) e opts w =
      \<lparr>outcome = Inl (exhausted h (cfg\<lparr>retries := 0\<rparr>) None), calls = [], delays = [],
       world = setAbortTimer h (timeout cfg) w\<rparr>"
    unfolding request_def by (subst loop_exhausted) simp_all
  then have general: "attempts (request h (cfg\<lparr>retries := 0\<rparr>) e opts w) = 0
     \<and> outcome (request h (cfg\<lparr>retries := 0\<rparr>) e opts w)
         = Inl (NetworkError (''Request failed after '' @ number_string h 0
                                @ '' attempts: undefined'') None)"
    by (simp add: attempts_def exhausted_def)
  have "request scripted_host (DEFAULT_CONFIG\<lparr>retries := 0\<rparr>) ''/v1/breaches'' no_options
         [Resolved all_fine]
       = \<lparr>outcome = Inl (NetworkError ''Request failed after 0 attempts: undefined'' None),
          calls = [], delays = [], world = [Resolved all_fine]\<rparr>"
    by (simp add: run_simps no_options_def all_fine_def json_response_def)
  with general show ?thesis by simp
qed

text \<open>
  C2. The claim: whenever the elapsed time reaches the timeout while an attempt is in
  flight, that attempt is aborted and the request fails with a \<open>TimeoutError\<close>. The
  code on the timed host, with a timeout of 1000 ms and two attempts allowed: when the
  first attempt is answered with a 503 after 100 ms the timer is cleared, the second
  attempt stays in flight for 60 s and the request returns its value at 61100 ms. The two
  runs beside it are those where the timer does govern: a first attempt that fails in the
  transport leaves the timer armed, and an only attempt that outlasts the timeout is
  aborted at 1000 ms.
\<close>

theorem timeout_lifted_by_first_response:
  "request timed_host (DEFAULT_CONFIG\<lparr>timeout := 1000, retries := 2\<rparr>) ''/v1/breaches''
     no_options (start [(100, Resolved unavailable), (60000, Resolved all_fine)])
   = \<lparr>outcome = Inr (JObj [(''ok'', JBool True)]),
      calls = [Resolved unavailable, Resolved all_fine],
      delays = [1000],
      world = \<lparr>clock = 61100, timer = None, aborted = False, transport = []\<rparr>\<rparr>
   \<and> request timed_host (DEFAULT_CONFIG\<lparr>timeout := 1000, retries := 2\<rparr>) ''/v1/breaches''
       no_options (start [(100, Rejected connection_failure), (60000, Resolved all_fine)])
     = \<lparr>outcome = Inl (TimeoutError ''Request timed out after 1000ms''),
        calls = [Rejected connection_failure, Rejected abort_error],
        delays = [1000],
        world = \<lparr>clock = 1100, timer = None, aborted = True, transport = []\<rparr>\<rparr>
   \<and> request timed_host (DEFAULT_CONFIG\<lparr>timeout := 1000, retries := 2\<rparr>) ''/v1/breaches''
       no_options (start [(60000, Resolved all_fine)])
     = \<lparr>outcome = Inl (TimeoutError ''Request timed out after 1000ms''),
        calls = [Rejected abort_error],
        delays = [],
        world = \<lparr>clock = 1000, timer = None, aborted = True, transport = []\<rparr>\<rparr>"
  by (simp add: request_def request_loop.simps try_block_def catch_throws_def exhausted_def
        handleResponse_def handleErrorResponse_def decode_body_def ok_def
        extractErrorMessage_def backoff_delay_def
        timed_host_def host_of_def timed_fetch_def timed_sleep_def start_def
        connection_failure_def abort_error_def
        DEFAULT_CONFIG_def Let_def decimal_def digits.simps digit_char_def
        no_options_def json_response_def text_response_def unavailable_def all_fine_def)

text \<open>
  C3. The claim promises \<open>n\<close> attempts and a \<open>NetworkError\<close> whenever the transport
  fails with a retryable error every time. With a timeout of 1000 ms and three attempts
  allowed, a transport that refuses every connection after 10 ms is called once; the
  backoff of 1000 ms outlasts the timer, the second \<open>fetch\<close> is aborted, and the caller
  receives a \<open>TimeoutError\<close> after two calls, the third refusal never asked for.
\<close>

theorem refused_connections_time_out:
  "list_all (\<lambda>p. retryable_failure (snd p))
     [(10, Rejected connection_failure), (10, Rejected connection_failure),
      (10, Rejected connection_failure)]
   \<and> request timed_host (DEFAULT_CONFIG\<lparr>timeout := 1000, retries := 3\<rparr>) ''/v1/breaches''
       no_options
       (start [(10, Rejected connection_failure), (10, Rejected connection_failure),
               (10, Rejected connection_failure)])
     = \<lparr>outcome = Inl (TimeoutError ''Request timed out after 1000ms''),
        calls = [Rejected connection_failure, Rejected abort_error],
        delays = [1000],
        world = \<lparr>clock = 1010, timer = None, aborted = True,
                 transport = [(10, Rejected connection_failure)]\<rparr>\<rparr>"
  by (simp add: timed_simps retryable_failure_def no_options_def)

text \<open>
  C3, with the condition that the attempts and the backoffs between them end before the
  timeout. For every retry bound \<open>n \<ge> 1\<close>, when the transport answers the next \<open>n\<close>
  calls of \<open>fetch\<close> with retryable failures \<open>ys\<close> and the latencies and backoffs of
  \<open>ys\<close> sum to less than the timeout, the executor calls \<open>fetch\<close> exactly \<open>n\<close> times,
  receiving \<open>ys\<close> in order and leaving what the transport holds after them (\<open>rest\<close>)
  untouched, sleeps the backoff after each attempt but the last, and then surfaces the
  last failure: a classified error (such as the \<open>ApiError\<close> of a 5xx response) as it
  is, a raw transport error wrapped in a \<open>NetworkError\<close> whose message ends with the
  original message and whose cause is the original error. The outcome of a request is an
  \<open>xon_error\<close> by its type, never a raw error.
\<close>

theorem retry_exhaustion:
  assumes "retries cfg = n" and "1 \<le> n" and "length ys = n"
    and "\<forall>p \<in> set ys. retryable_failure (snd p)"
    and "of_nat (duration 0 ys) < timeout cfg"
  shows "request timed_host cfg e opts (start (ys @ rest))
         = \<lparr>outcome =
              Inl (case snd (last ys) of
                     Rejected err \<Rightarrow>
                       NetworkError (''Request failed after ''
                                       @ number_string timed_host (of_nat n)
                                       @ '' attempts: '' @ err_message err) (Some err)
                   | Resolved r \<Rightarrow> handleErrorResponse timed_host (status r) (decode_body r)),
            calls = map snd ys,
            delays = map backoff_delay [1 ..< n],
            world = \<lparr>clock = of_nat (duration 0 ys),
                     timer = (if list_ex is_response (map snd ys) then None
                              else Some (timeout cfg)),
                     aborted = False, transport = rest\<rparr>\<rparr>"
proof -
  have ne: "ys \<noteq> []" using assms(2,3) by auto
  have len: "length ys \<le> retries cfg" using assms(1,3) by simp
  have bl: "\<forall>p \<in> set (butlast ys). retryable_failure (snd p)"
    using assms(4) by (auto dest: in_set_butlastD)
  have ex: "length ys = retries cfg \<or> \<not> retryable_failure (snd (last ys))"
    using assms(1,3) by simp
  have "(of_nat (armed_duration 0 ys) :: rat) \<le> of_nat (duration 0 ys)"
    using armed_le_duration [of 0 ys] by simp
  then have tm: "of_nat (armed_duration 0 ys) < timeout cfg" using assms(5) by simp
  have "last ys \<in> set ys" using ne by (rule last_in_set)
  then have "retryable_failure (snd (last ys))" using assms(4) by simp
  then have "settle timed_host cfg (snd (last ys))
      = Inl (case snd (last ys) of
               Rejected err \<Rightarrow>
                 NetworkError (''Request failed after ''
                                 @ number_string timed_host (of_nat (retries cfg))
                                 @ '' attempts: '' @ err_message err) (Some err)
             | Resolved r \<Rightarrow> handleErrorResponse timed_host (status r) (decode_body r))"
    by (rule retryable_settle)
  moreover have n: "n = retries cfg" using assms(1) by simp
  moreover have "length ys = retries cfg" using assms(1,3) by simp
  ultimately show ?thesis
    unfolding n using timed_request [OF ne len bl ex tm, of e opts rest] by simp
qed

text \<open>
  The theorem at three attempts: a connection failure, a 503 and a connection failure,
  with a further response of the transport that is never asked for.
\<close>

theorem retry_exhaustion_witness:
  "retries DEFAULT_CONFIG = 3 \<and> (1::nat) \<le> 3
   \<and> length [(10, Rejected connection_failure), (20, Resolved unavailable),
              (10, Rejected connection_failure)] = 3
   \<and> list_all (\<lambda>p. retryable_failure (snd p))
         [(10, Rejected connection_failure), (20, Resolved unavailable),
          (10, Rejected connection_failure)]
   \<and> of_nat (duration 0 [(10, Rejected connection_failure), (20, Resolved unavailable),
                           (10, Rejected connection_failure)]) < timeout DEFAULT_CONFIG
   \<and> request timed_host DEFAULT_CONFIG ''/v1/breaches'' no_options
       (start ([(10, Rejected connection_failure), (20, Resolved unavailable),
                (10, Rejected connection_failure)] @ [(5, Resolved all_fine)]))
     = \<lparr>outcome = Inl (NetworkError ''Request failed after 3 attempts: fetch failed''
                          (Some connection_failure)),
        calls = [Rejected connection_failure, Resolved unavailable,
                 Rejected connection_failure],
        delays = [1000, 2000],
        world = \<lparr>clock = 3040, timer = None, aborted = False,
                 transport = [(5, Resolved all_fine)]\<rparr>\<rparr>"
proof -
  let ?ys = "[(10, Rejected connection_failure), (20, Resolved unavailable),
              (10, Rejected connection_failure)]"
  have h1: "retries DEFAULT_CONFIG = 3" by (simp add: DEFAULT_CONFIG_def)
  have h2: "(1::nat) \<le> 3" by simp
  have h3: "length ?ys = 3" by simp
  have h4: "\<forall>p \<in> set ?ys. retryable_failure (snd p)"
    by (simp add: retryable_failure_def ok_def connection_failure_def unavailable_def
          text_response_def)
  have h5: "of_nat (duration 0 ?ys) < timeout DEFAULT_CONFIG"
    by (simp add: DEFAULT_CONFIG_def backoff_delay_def)
  have du: "duration 0 ?ys = 3040" by (simp add: backoff_delay_def)
  have ns: "number_string timed_host (of_nat 3) = ''3''"
    by (simp add: timed_host_def host_of_def decimal_def digits.simps digit_char_def)
  have up: "[1 ..< 3] = [1, 2::nat]" by (simp add: upt_rec)
  show ?thesis
    using retry_exhaustion [OF h1 h2 h3 h4 h5, of "''/v1/breaches''" no_options
        "[(5, Resolved all_fine)]"] h1 h3 h4 h5 du ns up
    by (simp add: list_all_iff connection_failure_def backoff_delay_def)
qed



text \<open>
  C5. A response with status 429 is classified as a \<open>RateLimitError\<close> and retried:
  when the transport answers the next \<open>retries\<close> calls of \<open>fetch\<close> with status 429,
  the first of them before the timer falls due, the executor calls \<open>fetch\<close> exactly
  \<open>retries\<close> times, sleeping the backoff after each attempt but the last, and surfaces
  the \<open>RateLimitError\<close> of the last response. Its retry-after is read from the decoded
  body: the number under \<open>retry_after\<close> if there is one, else the number under
  \<open>retryAfter\<close> if there is one, else none; a body that is not an object carries none.
  The body \<open>{"retry_after": 60}\<close> yields 60.
\<close>

theorem rate_limit_retried:
  assumes "retries cfg = n" and "1 \<le> n" and "length ys = n"
    and "\<forall>p \<in> set ys. \<exists>r. snd p = Resolved r \<and> status r = 429"
    and "of_nat (fst (hd ys)) < timeout cfg"
  shows "(\<exists>r. snd (last ys) = Resolved r \<and> status r = 429
            \<and> request timed_host cfg e opts (start (ys @ rest))
                = \<lparr>outcome = Inl (RateLimitError (extractErrorMessage (decode_body r))
                                     (extractRetryAfter (decode_body r))),
                   calls = map snd ys,
                   delays = map backoff_delay [1 ..< n],
                   world = \<lparr>clock = of_nat (duration 0 ys), timer = None, aborted = False,
                            transport = rest\<rparr>\<rparr>)
       \<and> (status r' = 429 \<longrightarrow>
            handleResponse h r'
              = Inl (RateLimitError (extractErrorMessage (decode_body r'))
                       (extractRetryAfter (decode_body r'))))
       \<and> (map_of kvs1 ''retry_after'' = Some (JNum q1) \<longrightarrow>
            extractRetryAfter (JObj kvs1) = Some q1)
       \<and> ((\<forall>q. map_of kvs2 ''retry_after'' \<noteq> Some (JNum q))
            \<and> map_of kvs2 ''retryAfter'' = Some (JNum q2) \<longrightarrow>
            extractRetryAfter (JObj kvs2) = Some q2)
       \<and> ((\<forall>q. map_of kvs3 ''retry_after'' \<noteq> Some (JNum q))
            \<and> (\<forall>q. map_of kvs3 ''retryAfter'' \<noteq> Some (JNum q)) \<longrightarrow>
            extractRetryAfter (JObj kvs3) = None)
       \<and> ((\<forall>kvs. d \<noteq> JObj kvs) \<longrightarrow> extractRetryAfter d = None)
       \<and> extractRetryAfter (JObj [(''retry_after'', JNum 60)]) = Some 60"
proof -
  have ne: "ys \<noteq> []" using assms(2,3) by auto
  have len: "length ys \<le> retries cfg" using assms(1,3) by simp
  have all: "\<forall>p \<in> set ys. retryable_failure (snd p)"
    using assms(4) by (auto simp: retryable_429)
  have bl: "\<forall>p \<in> set (butlast ys). retryable_failure (snd p)"
    using all by (auto dest: in_set_butlastD)
  have ex: "length ys = retries cfg \<or> \<not> retryable_failure (snd (last ys))"
    using assms(1,3) by simp
  obtain l0 r0 tl0 where hd: "ys = (l0, Resolved r0) # tl0"
    using ne assms(4) by (cases ys) (auto simp: prod_eq_iff)
  have tm: "of_nat (armed_duration 0 ys) < timeout cfg" using assms(5) hd by simp
  have resp: "list_ex is_response (map snd ys)" using hd by simp
  have "last ys \<in> set ys" using ne by (rule last_in_set)
  then obtain r where r: "snd (last ys) = Resolved r" "status r = 429"
    using assms(4) by blast
  have n: "n = retries cfg" using assms(1) by simp
  have ln: "length ys = retries cfg" using assms(1,3) by simp
  have run: "request timed_host cfg e opts (start (ys @ rest))
      = \<lparr>outcome = Inl (RateLimitError (extractErrorMessage (decode_body r))
                           (extractRetryAfter (decode_body r))),
         calls = map snd ys,
         delays = map backoff_delay [1 ..< n],
         world = \<lparr>clock = of_nat (duration 0 ys), timer = None, aborted = False,
                  transport = rest\<rparr>\<rparr>"
    unfolding n
    using timed_request [OF ne len bl ex tm, of e opts rest] r resp ln
      settle_429 [OF r(2), of timed_host cfg]
    by simp
  have loop: "\<exists>r. snd (last ys) = Resolved r \<and> status r = 429
            \<and> request timed_host cfg e opts (start (ys @ rest))
                = \<lparr>outcome = Inl (RateLimitError (extractErrorMessage (decode_body r))
                                     (extractRetryAfter (decode_body r))),
                   calls = map snd ys,
                   delays = map backoff_delay [1 ..< n],
                   world = \<lparr>clock = of_nat (duration 0 ys), timer = None, aborted = False,
                            transport = rest\<rparr>\<rparr>"
    using r run by blast
  show ?thesis
    using loop handleResponse_429 [of r' h] extractRetryAfter_snake [of kvs1 q1]
      extractRetryAfter_camel [of kvs2 q2] extractRetryAfter_neither [of kvs3]
      extractRetryAfter_other [of d]
    by (simp add: extractRetryAfter_def)
qed

text \<open>
  The theorem at three attempts answered with 429 and the body \<open>{"retry_after": 60}\<close>,
  and at bodies with both fields, the second field only, a string under the first field,
  and an array.
\<close>

theorem rate_limit_retried_witness:
  "retries DEFAULT_CONFIG = 3 \<and> (1::nat) \<le> 3
   \<and> length [(10, Resolved rate_limited), (10, Resolved rate_limited),
              (10, Resolved rate_limited)] = 3
   \<and> list_all (\<lambda>p. \<exists>r. snd p = Resolved r \<and> status r = 429)
         [(10, Resolved rate_limited), (10, Resolved rate_limited),
          (10, Resolved rate_limited)]
   \<and> of_nat (fst (hd [(10, Resolved rate_limited), (10, Resolved rate_limited),
                        (10::nat, Resolved rate_limited)])) < timeout DEFAULT_CONFIG
   \<and> request timed_host DEFAULT_CONFIG ''/v1/breaches'' no_options
       (start ([(10, Resolved rate_limited), (10, Resolved rate_limited),
                (10, Resolved rate_limited)] @ [(5, Resolved all_fine)]))
     = \<lparr>outcome = Inl (RateLimitError ''An unknown error occurred'' (Some 60)),
        calls = [Resolved rate_limited, Resolved rate_limited, Resolved rate_limited],
        delays = [1000, 2000],
        world = \<lparr>clock = 3030, timer = None, aborted = False,
                 transport = [(5, Resolved all_fine)]\<rparr>\<rparr>
   \<and> status rate_limited = 429
   \<and> handleResponse scripted_host rate_limited
       = Inl (RateLimitError ''An unknown error occurred'' (Some 60))
   \<and> map_of [(''retry_after'', JNum 60), (''retryAfter'', JNum 30)] ''retry_after''
       = Some (JNum 60)
   \<and> extractRetryAfter (JObj [(''retry_after'', JNum 60), (''retryAfter'', JNum 30)]) = Some 60
   \<and> (\<forall>q. map_of [(''retryAfter'', JNum 30)] ''retry_after'' \<noteq> Some (JNum q))
   \<and> map_of [(''retryAfter'', JNum 30)] ''retryAfter'' = Some (JNum 30)
   \<and> extractRetryAfter (JObj [(''retryAfter'', JNum 30)]) = Some 30
   \<and> (\<forall>q. map_of [(''retry_after'', JStr ''60'')] ''retry_after'' \<noteq> Some (JNum q))
   \<and> (\<forall>q. map_of [(''retry_after'', JStr ''60'')] ''retryAfter'' \<noteq> Some (JNum q))
   \<and> extractRetryAfter (JObj [(''retry_after'', JStr ''60'')]) = None
   \<and> (\<forall>kvs. JArr [JNum 60] \<noteq> JObj kvs)
   \<and> extractRetryAfter (JArr [JNum 60]) = None"
proof -
  let ?ys = "[(10::nat, Resolved rate_limited), (10, Resolved rate_limited),
              (10, Resolved rate_limited)]"
  have st: "status rate_limited = 429" by (simp add: rate_limited_def json_response_def)
  have h1: "retries DEFAULT_CONFIG = 3" by (simp add: DEFAULT_CONFIG_def)
  have h2: "(1::nat) \<le> 3" by simp
  have h3: "length ?ys = 3" by simp
  have h4: "\<forall>p \<in> set ?ys. \<exists>r. snd p = Resolved r \<and> status r = 429" using st by simp
  have h5: "of_nat (fst (hd ?ys)) < timeout DEFAULT_CONFIG" by (simp add: DEFAULT_CONFIG_def)
  have bd: "decode_body rate_limited = JObj [(''retry_after'', JNum 60)]"
    by (simp add: decode_body_def rate_limited_def json_response_def)
  have msg: "extractErrorMessage (JObj [(''retry_after'', JNum 60)]) = ''An unknown error occurred''"
    by (simp add: extractErrorMessage_def)
  have du: "duration 0 ?ys = 3030" by (simp add: backoff_delay_def)
  have up: "[1 ..< 3] = [1, 2::nat]" by (simp add: upt_rec)
  show ?thesis
    using rate_limit_retried [OF h1 h2 h3 h4 h5, where e = "''/v1/breaches''"
        and opts = no_options and rest = "[(5, Resolved all_fine)]"
        and r' = rate_limited and h = scripted_host
        and ?kvs1.0 = "[(''retry_after'', JNum 60), (''retryAfter'', JNum 30)]" and ?q1.0 = 60
        and ?kvs2.0 = "[(''retryAfter'', JNum 30)]" and ?q2.0 = 30
        and ?kvs3.0 = "[(''retry_after'', JStr ''60'')]" and d = "JArr [JNum 60]"]
      h1 h3 h4 h5 st bd msg du up
    by (simp add: list_all_iff backoff_delay_def)
qed



text \<open>
  C7. The claim asks for an integer timeout. The constructor accepts the timeout 1500.5,
  which \<open>Number.isInteger\<close> rejects: \<open>validateTimeout\<close> checks that the number is
  finite and in range, and nothing more.
\<close>

theorem fractional_timeout_accepted:
  "resolveConfig scripted_host
     \<lparr>user_baseUrl = None, user_timeout = Some (Num (3001 / 2)), user_retries = None,
      user_headers = None\<rparr>
   = Inr (DEFAULT_CONFIG\<lparr>timeout := 3001 / 2\<rparr>)
   \<and> \<not> isInteger (Num (3001 / 2))
   \<and> (3001 / 2 :: rat) \<notin> \<int>"
proof -
  have fl: "\<lfloor>3001 / 2 :: rat\<rfloor> = 1500" by (simp add: floor_eq_iff)
  have ni: "\<not> isInteger (Num (3001 / 2))" using fl by simp
  then have nz: "(3001 / 2 :: rat) \<notin> \<int>" by (simp add: isInteger_Ints)
  have "resolveConfig scripted_host
     \<lparr>user_baseUrl = None, user_timeout = Some (Num (3001 / 2)), user_retries = None,
      user_headers = None\<rparr>
   = Inr (DEFAULT_CONFIG\<lparr>timeout := 3001 / 2\<rparr>)"
    by (simp add: resolveConfig_def validateBaseUrl_def validateTimeout_def validateRetries_def
          DEFAULT_CONFIG_def scripted_host_def host_of_def parse_absolute_def Let_def)
  then show ?thesis using ni nz by simp
qed

text \<open>
  C7, as amended. Construction validates the configuration at once: a valid
  configuration (base URL parsing with scheme https, timeout a finite number from 1000
  to 300000, retry bound an integer from 0 to 10, each defaulted when absent) is
  resolved to a record of those values, and any other configuration is rejected with a
  \<open>ValidationError\<close> naming the field. No request ends in a validation error: the
  executor does not validate the configuration again.
\<close>

theorem resolveConfig_validates:
  "(valid_config h c1 \<longrightarrow>
      (\<exists>rc. resolveConfig h c1 = Inr rc
            \<and> baseUrl rc = (case user_baseUrl c1 of
                               None \<Rightarrow> ''https://api.xposedornot.com'' | Some u \<Rightarrow> u)
            \<and> Num (timeout rc) = (case user_timeout c1 of None \<Rightarrow> Num 30000 | Some t \<Rightarrow> t)
            \<and> Num (of_nat (retries rc))
                = (case user_retries c1 of None \<Rightarrow> Num 3 | Some r \<Rightarrow> r)))
   \<and> (\<not> valid_config h c2 \<longrightarrow>
        (\<exists>m f. resolveConfig h c2 = Inl (ValidationError m (Some f))))
   \<and> (outcome (request h rc' e opts w) = Inl x \<longrightarrow> code x \<noteq> ''VALIDATION_ERROR'')"
proof -
  have v: "valid_config h config \<longleftrightarrow>
     validateBaseUrl h (case user_baseUrl config of None \<Rightarrow> baseUrl DEFAULT_CONFIG | Some u \<Rightarrow> u) = None
     \<and> validateTimeout h (case user_timeout config of
                              None \<Rightarrow> Num (timeout DEFAULT_CONFIG) | Some n \<Rightarrow> n) = None
     \<and> validateRetries h (case user_retries config of
                              None \<Rightarrow> Num (of_nat (retries DEFAULT_CONFIG)) | Some n \<Rightarrow> n) = None"
    for config
    by (auto simp: valid_config_def validateBaseUrl_None validateTimeout_None
          validateRetries_None DEFAULT_CONFIG_def split: option.splits jsnum.splits)
  have ok: "\<exists>rc. resolveConfig h config = Inr rc
            \<and> baseUrl rc = (case user_baseUrl config of
                               None \<Rightarrow> ''https://api.xposedornot.com'' | Some u \<Rightarrow> u)
            \<and> Num (timeout rc) = (case user_timeout config of None \<Rightarrow> Num 30000 | Some t \<Rightarrow> t)
            \<and> Num (of_nat (retries rc))
                = (case user_retries config of None \<Rightarrow> Num 3 | Some r \<Rightarrow> r)"
    if "valid_config h config" for config
  proof -
    let ?b = "case user_baseUrl config of None \<Rightarrow> baseUrl DEFAULT_CONFIG | Some u \<Rightarrow> u"
    let ?t = "case user_timeout config of None \<Rightarrow> Num (timeout DEFAULT_CONFIG) | Some n \<Rightarrow> n"
    let ?r = "case user_retries config of None \<Rightarrow> Num (of_nat (retries DEFAULT_CONFIG)) | Some n \<Rightarrow> n"
    from that have n: "validateBaseUrl h ?b = None" "validateTimeout h ?t = None"
      "validateRetries h ?r = None" using v [of config] by simp_all
    obtain q where t: "?t = Num q"
      using n(2) by (cases ?t) (simp_all add: validateTimeout_None)
    obtain p where r: "?r = Num p" and p: "p \<in> \<int>" "0 \<le> p"
      using n(3) by (cases ?r) (simp_all add: validateRetries_None)
    from p obtain k where k: "p = of_int k" "0 \<le> k" by (auto elim: Ints_cases)
    have nat_p: "of_nat (nat \<lfloor>p\<rfloor>) = p" using k by simp
    have "resolveConfig h config =
        Inr \<lparr>baseUrl = ?b, timeout = q, retries = nat \<lfloor>p\<rfloor>,
             headers = headers DEFAULT_CONFIG
                         ++ (case user_headers config of None \<Rightarrow> Map.empty | Some hs \<Rightarrow> hs)\<rparr>"
      using n t r by (simp add: resolveConfig_def Let_def)
    then show ?thesis
      using t r nat_p
      by (auto simp: DEFAULT_CONFIG_def split: option.splits)
  qed
  have bad: "\<exists>m f. resolveConfig h config = Inl (ValidationError m (Some f))"
    if "\<not> valid_config h config" for config
  proof -
    let ?b = "case user_baseUrl config of None \<Rightarrow> baseUrl DEFAULT_CONFIG | Some u \<Rightarrow> u"
    let ?t = "case user_timeout config of None \<Rightarrow> Num (timeout DEFAULT_CONFIG) | Some n \<Rightarrow> n"
    let ?r = "case user_retries config of None \<Rightarrow> Num (of_nat (retries DEFAULT_CONFIG)) | Some n \<Rightarrow> n"
    from that consider x where "validateBaseUrl h ?b = Some x"
      | x where "validateBaseUrl h ?b = None" "validateTimeout h ?t = Some x"
      | x where "validateBaseUrl h ?b = None" "validateTimeout h ?t = None"
          "validateRetries h ?r = Some x"
      using v [of config] by (cases "validateBaseUrl h ?b"; cases "validateTimeout h ?t";
                  cases "validateRetries h ?r") auto
    then show ?thesis
    proof cases
      case 1
      then show ?thesis
        using validateBaseUrl_error [OF 1] by (auto simp: resolveConfig_def Let_def)
    next
      case 2
      then show ?thesis
        using validateTimeout_error [OF 2(2)] by (auto simp: resolveConfig_def Let_def)
    next
      case 3
      then show ?thesis
        using validateRetries_error [OF 3(3)] by (auto simp: resolveConfig_def Let_def)
    qed
  qed
  show ?thesis using ok [of c1] bad [of c2] request_code [of h rc' e opts w x] by blast
qed

text \<open>
  The theorem at a custom https base with timeout 5000 and five retries, at an http
  base, and at a request answered with 404.
\<close>

theorem resolveConfig_validates_witness:
  "valid_config scripted_host
     \<lparr>user_baseUrl = Some ''https://custom.api.com'', user_timeout = Some (Num 5000),
      user_retries = Some (Num 5), user_headers = None\<rparr>
   \<and> resolveConfig scripted_host
       \<lparr>user_baseUrl = Some ''https://custom.api.com'', user_timeout = Some (Num 5000),
        user_retries = Some (Num 5), user_headers = None\<rparr>
     = Inr \<lparr>baseUrl = ''https://custom.api.com'', timeout = 5000, retries = 5,
            headers = Map.empty\<rparr>
   \<and> \<not> valid_config scripted_host
         \<lparr>user_baseUrl = Some ''http://api.example.com'', user_timeout = None,
          user_retries = None, user_headers = None\<rparr>
   \<and> resolveConfig scripted_host
       \<lparr>user_baseUrl = Some ''http://api.example.com'', user_timeout = None,
        user_retries = None, user_headers = None\<rparr>
     = Inl (ValidationError (''Invalid baseUrl: must use HTTPS protocol (got ''
                              @ [CHR 0x22] @ ''http:'' @ [CHR 0x22] @ '')'')
              (Some ''baseUrl''))
   \<and> outcome (request scripted_host DEFAULT_CONFIG ''/v1/breaches'' no_options
                [Resolved not_found])
       = Inl (NotFoundError ''Not found'')
   \<and> code (NotFoundError ''Not found'') \<noteq> ''VALIDATION_ERROR''"
proof -
  let ?c1 = "\<lparr>user_baseUrl = Some ''https://custom.api.com'', user_timeout = Some (Num 5000),
      user_retries = Some (Num 5), user_headers = None\<rparr>"
  let ?c2 = "\<lparr>user_baseUrl = Some ''http://api.example.com'', user_timeout = None,
          user_retries = None, user_headers = None\<rparr>"
  have v1: "valid_config scripted_host ?c1"
    by (simp add: valid_config_def scripted_host_def host_of_def parse_absolute_def)
  have v2: "\<not> valid_config scripted_host ?c2"
    by (simp add: valid_config_def scripted_host_def host_of_def parse_absolute_def)
  have r1: "resolveConfig scripted_host ?c1
     = Inr \<lparr>baseUrl = ''https://custom.api.com'', timeout = 5000, retries = 5,
            headers = Map.empty\<rparr>"
    by (simp add: resolveConfig_def validateBaseUrl_def validateTimeout_def validateRetries_def
          DEFAULT_CONFIG_def scripted_host_def host_of_def parse_absolute_def Let_def)
  have r2: "resolveConfig scripted_host ?c2
     = Inl (ValidationError (''Invalid baseUrl: must use HTTPS protocol (got ''
                              @ [CHR 0x22] @ ''http:'' @ [CHR 0x22] @ '')'')
              (Some ''baseUrl''))"
    by (simp add: resolveConfig_def validateBaseUrl_def
          DEFAULT_CONFIG_def scripted_host_def host_of_def parse_absolute_def Let_def)
  have o: "outcome (request scripted_host DEFAULT_CONFIG ''/v1/breaches'' no_options
                [Resolved not_found]) = Inl (NotFoundError ''Not found'')"
    by (simp add: run_simps no_options_def not_found_def json_response_def)
  show ?thesis
    using resolveConfig_validates [where h = scripted_host and ?c1.0 = ?c1 and ?c2.0 = ?c2
        and rc' = DEFAULT_CONFIG and e = "''/v1/breaches''" and opts = no_options
        and w = "[Resolved not_found]" and x = "NotFoundError ''Not found''"]
      v1 v2 r1 r2 o
    by simp
qed

text \<open>
  C8. A response with status 304 yields the empty object whatever its content type and
  body are (nothing of the body is decoded). A 2xx response whose content type includes
  \<open>application/json\<close> yields the decoded JSON value, and null when decoding fails; a
  2xx response with any other content type, or none, yields the body text.
\<close>

theorem response_decoding:
  "(status r1 = 304 \<longrightarrow>
      handleResponse h (r1\<lparr>content_type := ct, body_text := t, body_json := j\<rparr>) = Inr (JObj []))
   \<and> (200 \<le> status r2 \<and> status r2 \<le> 299 \<and> content_type r2 = Some ct2
        \<and> str_includes ct2 ''application/json'' \<longrightarrow>
        handleResponse h r2 = Inr (case body_json r2 of Some v \<Rightarrow> v | None \<Rightarrow> JNull))
   \<and> (200 \<le> status r3 \<and> status r3 \<le> 299
        \<and> (content_type r3 = None
            \<or> (\<exists>ct3. content_type r3 = Some ct3 \<and> \<not> str_includes ct3 ''application/json'')) \<longrightarrow>
        handleResponse h r3 = Inr (JStr (body_text r3)))"
  by (auto simp: handleResponse_def decode_body_def ok_def)

text \<open>
  The theorem at a 304 with an undecodable JSON body, a 200 whose JSON does not decode
  and a 201 of plain text.
\<close>

theorem response_decoding_witness:
  "status (text_response 304 ''ignored'') = 304
   \<and> handleResponse scripted_host
         ((text_response 304 ''ignored'')
            \<lparr>content_type := Some ''application/json'', body_text := ''{{'', body_json := None\<rparr>)
       = Inr (JObj [])
   \<and> 200 \<le> status (json_response 200 (JNum 1)\<lparr>body_json := None\<rparr>)
   \<and> status (json_response 200 (JNum 1)\<lparr>body_json := None\<rparr>) \<le> 299
   \<and> content_type (json_response 200 (JNum 1)\<lparr>body_json := None\<rparr>)
       = Some ''application/json; charset=utf-8''
   \<and> str_includes ''application/json; charset=utf-8'' ''application/json''
   \<and> handleResponse scripted_host (json_response 200 (JNum 1)\<lparr>body_json := None\<rparr>) = Inr JNull
   \<and> 200 \<le> status (text_response 201 ''created'') \<and> status (text_response 201 ''created'') \<le> 299
   \<and> content_type (text_response 201 ''created'') = Some ''text/plain''
   \<and> \<not> str_includes ''text/plain'' ''application/json''
   \<and> handleResponse scripted_host (text_response 201 ''created'') = Inr (JStr ''created'')"
  using response_decoding [where ?r1.0 = "text_response 304 ''ignored''" and h = scripted_host
      and ct = "Some ''application/json''" and t = "''{{''" and j = None
      and ?r2.0 = "json_response 200 (JNum 1)\<lparr>body_json := None\<rparr>"
      and ?ct2.0 = "''application/json; charset=utf-8''"
      and ?r3.0 = "text_response 201 ''created''"]
  by (simp add: text_response_def json_response_def)



text \<open>
  C10. Once the address has passed validation, a \<open>NotFoundError\<close> from the executor
  does not reach the caller of \<open>checkEmail\<close> or \<open>getBreachAnalytics\<close>: the first
  returns the caller's address with \<open>found = false\<close> and no breaches, the second the
  address with \<open>found = false\<close> and null analytics. Any other error of the executor is
  thrown again as it is. In particular a request whose last call is answered with 404
  makes \<open>checkEmail\<close> return \<open>found = false\<close>.
\<close>

theorem not_found_absorbed:
  "(validateEmail (JStr a1) = None
      \<and> outcome (checkEmail_request h cfg a1 inc w1) = Inl (NotFoundError m1) \<longrightarrow>
      fst (checkEmail h cfg a1 inc w1)
        = Inr \<lparr>email = Some (JStr a1), found = False, breaches = []\<rparr>)
   \<and> (validateEmail (JStr a2) = None
        \<and> outcome (checkEmail_request h cfg a2 inc w2) = Inl x2
        \<and> \<not> instanceof_NotFoundError x2 \<longrightarrow>
        fst (checkEmail h cfg a2 inc w2) = Inl (Xon x2))
   \<and> (validateEmail (JStr a3) = None
        \<and> outcome (getBreachAnalytics_request h cfg a3 tok w3) = Inl (NotFoundError m3) \<longrightarrow>
        fst (getBreachAnalytics h cfg a3 tok w3)
          = Inr \<lparr>analytics_email = a3, analytics_found = False, analytics = None\<rparr>)
   \<and> (validateEmail (JStr a4) = None
        \<and> outcome (getBreachAnalytics_request h cfg a4 tok w4) = Inl x4
        \<and> \<not> instanceof_NotFoundError x4 \<longrightarrow>
        fst (getBreachAnalytics h cfg a4 tok w4) = Inl (Xon x4))
   \<and> (validateEmail (JStr a5) = None
        \<and> calls (checkEmail_request h cfg a5 inc w5) \<noteq> []
        \<and> last (calls (checkEmail_request h cfg a5 inc w5)) = Resolved r5
        \<and> status r5 = 404 \<longrightarrow>
        fst (checkEmail h cfg a5 inc w5)
          = Inr \<lparr>email = Some (JStr a5), found = False, breaches = []\<rparr>)"
proof -
  have "outcome (checkEmail_request h cfg a5 inc w5)
          = Inl (NotFoundError (extractErrorMessage (decode_body r5)))"
    if ne: "calls (checkEmail_request h cfg a5 inc w5) \<noteq> []"
      and l: "last (calls (checkEmail_request h cfg a5 inc w5)) = Resolved r5"
      and st: "status r5 = 404"
  proof -
    have ce: "client_error r5" using st by (simp add: client_error_def)
    have "outcome (checkEmail_request h cfg a5 inc w5) = settle h cfg (Resolved r5)"
      using ne l outcome_of_last unfolding checkEmail_request_def by metis
    then show ?thesis
      using client_error_settle [OF ce, of h cfg] st by (simp add: handleErrorResponse_def)
  qed
  then show ?thesis
    by (simp add: checkEmail_def getBreachAnalytics_def Let_def)
qed

text \<open>
  The theorem at requests answered with 404, with 403, and with 503 and then 404.
\<close>

theorem not_found_absorbed_witness:
  "validateEmail (JStr ''test@example.com'') = None
   \<and> outcome (checkEmail_request scripted_host DEFAULT_CONFIG ''test@example.com'' None
                [Resolved not_found]) = Inl (NotFoundError ''Not found'')
   \<and> fst (checkEmail scripted_host DEFAULT_CONFIG ''test@example.com'' None [Resolved not_found])
       = Inr \<lparr>email = Some (JStr ''test@example.com''), found = False, breaches = []\<rparr>
   \<and> outcome (checkEmail_request scripted_host DEFAULT_CONFIG ''test@example.com'' None
                [Resolved (text_response 403 ''Forbidden'')])
       = Inl (ApiError ''Forbidden'' 403 (JStr ''Forbidden''))
   \<and> \<not> instanceof_NotFoundError (ApiError ''Forbidden'' 403 (JStr ''Forbidden''))
   \<and> fst (checkEmail scripted_host DEFAULT_CONFIG ''test@example.com'' None
            [Resolved (text_response 403 ''Forbidden'')])
       = Inl (Xon (ApiError ''Forbidden'' 403 (JStr ''Forbidden'')))
   \<and> calls (checkEmail_request scripted_host DEFAULT_CONFIG ''test@example.com'' None
              [Resolved unavailable, Resolved not_found])
       = [Resolved unavailable, Resolved not_found]
   \<and> status not_found = 404
   \<and> fst (checkEmail scripted_host DEFAULT_CONFIG ''test@example.com'' None
            [Resolved unavailable, Resolved not_found])
       = Inr \<lparr>email = Some (JStr ''test@example.com''), found = False, breaches = []\<rparr>
   \<and> outcome (getBreachAnalytics_request scripted_host DEFAULT_CONFIG ''test@example.com'' None
                [Resolved not_found]) = Inl (NotFoundError ''Not found'')
   \<and> fst (getBreachAnalytics scripted_host DEFAULT_CONFIG ''test@example.com'' None
            [Resolved not_found])
       = Inr \<lparr>analytics_email = ''test@example.com'', analytics_found = False,
              analytics = None\<rparr>
   \<and> outcome (getBreachAnalytics_request scripted_host DEFAULT_CONFIG ''test@example.com'' None
                [Resolved (text_response 403 ''Forbidden'')])
       = Inl (ApiError ''Forbidden'' 403 (JStr ''Forbidden''))
   \<and> fst (getBreachAnalytics scripted_host DEFAULT_CONFIG ''test@example.com'' None
            [Resolved (text_response 403 ''Forbidden'')])
       = Inl (Xon (ApiError ''Forbidden'' 403 (JStr ''Forbidden'')))"
proof -
  have v: "validateEmail (JStr ''test@example.com'') = None" by (rule sample_address)
  have o1: "outcome (checkEmail_request scripted_host DEFAULT_CONFIG ''test@example.com'' None
                [Resolved not_found]) = Inl (NotFoundError ''Not found'')"
    by (simp add: checkEmail_request_def run_simps unavailable_def not_found_def
          text_response_def json_response_def)
  have o2: "outcome (checkEmail_request scripted_host DEFAULT_CONFIG ''test@example.com'' None
                [Resolved (text_response 403 ''Forbidden'')])
       = Inl (ApiError ''Forbidden'' 403 (JStr ''Forbidden''))"
    by (simp add: checkEmail_request_def run_simps unavailable_def not_found_def
          text_response_def json_response_def)
  have o3: "outcome (getBreachAnalytics_request scripted_host DEFAULT_CONFIG ''test@example.com''
                None [Resolved not_found]) = Inl (NotFoundError ''Not found'')"
    by (simp add: getBreachAnalytics_request_def run_simps unavailable_def not_found_def
          text_response_def json_response_def)
  have o4: "outcome (getBreachAnalytics_request scripted_host DEFAULT_CONFIG ''test@example.com''
                None [Resolved (text_response 403 ''Forbidden'')])
       = Inl (ApiError ''Forbidden'' 403 (JStr ''Forbidden''))"
    by (simp add: getBreachAnalytics_request_def run_simps unavailable_def not_found_def
          text_response_def json_response_def)
  have c5: "calls (checkEmail_request scripted_host DEFAULT_CONFIG ''test@example.com'' None
              [Resolved unavailable, Resolved not_found])
       = [Resolved unavailable, Resolved not_found]"
    by (simp add: checkEmail_request_def run_simps unavailable_def not_found_def
          text_response_def json_response_def)
  have st: "status not_found = 404" by (simp add: not_found_def json_response_def)
  show ?thesis
    using not_found_absorbed [where h = scripted_host and cfg = DEFAULT_CONFIG
        and ?a1.0 = "''test@example.com''" and ?a2.0 = "''test@example.com''"
        and ?a3.0 = "''test@example.com''" and ?a4.0 = "''test@example.com''"
        and inc = None and tok = None
        and ?w1.0 = "[Resolved not_found]" and ?m1.0 = "''Not found''"
        and ?w2.0 = "[Resolved (text_response 403 ''Forbidden'')]"
        and ?x2.0 = "ApiError ''Forbidden'' 403 (JStr ''Forbidden'')"
        and ?w3.0 = "[Resolved not_found]" and ?m3.0 = "''Not found''"
        and ?w4.0 = "[Resolved (text_response 403 ''Forbidden'')]"
        and ?x4.0 = "ApiError ''Forbidden'' 403 (JStr ''Forbidden'')"
        and ?a5.0 = "''test@example.com''"
        and ?w5.0 = "[Resolved unavailable, Resolved not_found]" and ?r5.0 = not_found]
      v o1 o2 o3 o4 c5 st
    by simp
qed

end
